theory Spec2Isabelle
  imports
    Complex_Main
    "HOL-Library.Word"
    "HOL-Library.Char_ord"
    "HOL-Library.List_Lexorder"
begin

section \<open>fieldsSet (lib/logstorage/fields_set.go)\<close>

text \<open>
  The Go type is \<^verbatim>\<open>map[string]struct{}\<close>: a finite set of field names. Every method
  mutates the receiver in place; the model returns the updated set.
\<close>

type_synonym fieldsSet = "string set"

definition newFieldsSet :: fieldsSet where
  "newFieldsSet = {}"

definition fieldsSet_reset :: "fieldsSet \<Rightarrow> fieldsSet" where
  "fieldsSet_reset fs = {}"

definition fieldsSet_contains :: "fieldsSet \<Rightarrow> string \<Rightarrow> bool" where
  "fieldsSet_contains fs field =
     (let ok = (field \<in> fs) in
      if \<not> ok then (''*'' \<in> fs) else ok)"

definition fieldsSet_remove :: "fieldsSet \<Rightarrow> string \<Rightarrow> fieldsSet" where
  "fieldsSet_remove fs field =
     (if field = ''*'' then fieldsSet_reset fs
      else if \<not> fieldsSet_contains fs ''*'' then fs - {field}
      else fs)"

definition fieldsSet_add :: "fieldsSet \<Rightarrow> string \<Rightarrow> fieldsSet" where
  "fieldsSet_add fs field =
     (if fieldsSet_contains fs ''*'' then fs
      else if field = ''*'' then insert ''*'' (fieldsSet_reset fs)
      else insert field fs)"

fun fieldsSet_removeAll :: "fieldsSet \<Rightarrow> string list \<Rightarrow> fieldsSet" where
  "fieldsSet_removeAll fs [] = fs"
| "fieldsSet_removeAll fs (f # names) = fieldsSet_removeAll (fieldsSet_remove fs f) names"

fun fieldsSet_addAll :: "fieldsSet \<Rightarrow> string list \<Rightarrow> fieldsSet" where
  "fieldsSet_addAll fs [] = fs"
| "fieldsSet_addAll fs (f # names) = fieldsSet_addAll (fieldsSet_add fs f) names"

text \<open>
  The sets a caller can build through the methods alone: a script of method calls run
  on \<^verbatim>\<open>newFieldsSet()\<close>.
\<close>

datatype fieldsSet_call =
    CallReset
  | CallAdd string
  | CallRemove string
  | CallAddAll "string list"
  | CallRemoveAll "string list"

fun fieldsSet_run :: "fieldsSet \<Rightarrow> fieldsSet_call \<Rightarrow> fieldsSet" where
  "fieldsSet_run fs CallReset = fieldsSet_reset fs"
| "fieldsSet_run fs (CallAdd f) = fieldsSet_add fs f"
| "fieldsSet_run fs (CallRemove f) = fieldsSet_remove fs f"
| "fieldsSet_run fs (CallAddAll names) = fieldsSet_addAll fs names"
| "fieldsSet_run fs (CallRemoveAll names) = fieldsSet_removeAll fs names"

definition fieldsSet_built :: "fieldsSet_call list \<Rightarrow> fieldsSet" where
  "fieldsSet_built calls = foldl fieldsSet_run newFieldsSet calls"

definition star_alone :: "fieldsSet \<Rightarrow> bool" where
  "star_alone fs = (if ''*'' \<in> fs then fs = {''*''} else True)"

section \<open>Panics\<close>

text \<open>
  A Go panic (\<^verbatim>\<open>logger.Panicf\<close> or a runtime panic) ends the query. Every function
  that can panic returns \<open>error + 'a\<close>, with \<open>Inl\<close> for the panic.
\<close>

datatype error =
    UnexpectedLength
  | UnknownValueType
  | IndexOutOfRange
  | DistinctLengths

section \<open>bitmap\<close>

text \<open>
  Modelled from the spec: the bitmap type and its pool (bitmap.go is not among the
  sources). The spec gives a bitmap a fixed logical length \<^verbatim>\<open>bitsLen\<close> equal to the row
  count of the block and the operations setBits, resetBits, copyFrom, or, andNot, isZero,
  onesCount and forEachSetBit, whose callback returns whether the bit remains set. The
  packed words are not modelled: a bitmap is the list of its \<^verbatim>\<open>bitsLen\<close> bits, row 0
  first. The Go methods mutate the receiver; here they return it. Merging two bitmaps of
  distinct lengths is an internal assertion failure.
\<close>

type_synonym bitmap = "bool list"

definition bitsLen :: "bitmap \<Rightarrow> nat" where
  "bitsLen bm = length bm"

definition getBitmap :: "nat \<Rightarrow> bitmap" where
  "getBitmap n = replicate n False"

definition copyFrom :: "bitmap \<Rightarrow> bitmap \<Rightarrow> bitmap" where
  "copyFrom bm src = src"

definition resetBits :: "bitmap \<Rightarrow> bitmap" where
  "resetBits bm = replicate (length bm) False"

definition setBits :: "bitmap \<Rightarrow> bitmap" where
  "setBits bm = replicate (length bm) True"

definition isZero :: "bitmap \<Rightarrow> bool" where
  "isZero bm = list_all Not bm"

definition onesCount :: "bitmap \<Rightarrow> nat" where
  "onesCount bm = length (filter id bm)"

definition andNot :: "bitmap \<Rightarrow> bitmap \<Rightarrow> error + bitmap" where
  "andNot bm x =
     (if length bm \<noteq> length x then Inl DistinctLengths
      else Inr (map2 (\<lambda>a b. a \<and> \<not> b) bm x))"

definition or_bm :: "bitmap \<Rightarrow> bitmap \<Rightarrow> error + bitmap" where
  "or_bm bm x =
     (if length bm \<noteq> length x then Inl DistinctLengths
      else Inr (map2 (\<lambda>a b. a \<or> b) bm x))"

text \<open>
  \<^verbatim>\<open>forEachSetBit(f)\<close> visits the set bits in ascending row order; the bit stays set iff
  the callback returns true. A panic inside the callback stops the iteration.
\<close>

fun forEachSetBit_from :: "nat \<Rightarrow> bitmap \<Rightarrow> (nat \<Rightarrow> error + bool) \<Rightarrow> error + bitmap" where
  "forEachSetBit_from i [] f = Inr []"
| "forEachSetBit_from i (b # bm) f =
     (if b then
        (case f i of
           Inl e \<Rightarrow> Inl e
         | Inr keep \<Rightarrow>
             (case forEachSetBit_from (Suc i) bm f of
                Inl e \<Rightarrow> Inl e
              | Inr r \<Rightarrow> Inr (keep # r)))
      else
        (case forEachSetBit_from (Suc i) bm f of
           Inl e \<Rightarrow> Inl e
         | Inr r \<Rightarrow> Inr (False # r)))"

definition forEachSetBit :: "bitmap \<Rightarrow> (nat \<Rightarrow> error + bool) \<Rightarrow> error + bitmap" where
  "forEachSetBit bm f = forEachSetBit_from 0 bm f"

text \<open>The rows whose bit is set.\<close>

definition setRows :: "bitmap \<Rightarrow> nat set" where
  "setRows bm = {i. i < length bm \<and> bm ! i}"

text \<open>A bitmap intersected with a set of rows: the bit of row \<open>i\<close> stays iff \<open>i \<in> P\<close>.\<close>

definition keepRows :: "nat set \<Rightarrow> bitmap \<Rightarrow> bitmap" where
  "keepRows P bm = map (\<lambda>i. bm ! i \<and> i \<in> P) [0..<length bm]"

section \<open>Blocks\<close>

text \<open>
  The Go type \<^verbatim>\<open>valueType\<close> is a byte; \<open>valueTypeUnknown\<close> stands for every byte that is
  none of the nine encodings, which the filters answer with a panic.
\<close>

datatype valueType =
    valueTypeUnknown
  | valueTypeString
  | valueTypeDict
  | valueTypeUint8
  | valueTypeUint16
  | valueTypeUint32
  | valueTypeUint64
  | valueTypeFloat64
  | valueTypeIPv4
  | valueTypeTimestampISO8601

text \<open>
  Modelled from the spec: the column header, the block under search and its accessors
  (block_search.go and block_header.go are not among the sources). A header has a name,
  a value type, the bounds minValue and maxValue (64 bits, read according to the value
  type) and the dictionary of a dict column. A block has constant columns, stored once,
  and for every other column a header and one encoded value per row.
  \<^verbatim>\<open>getConstColumnValue\<close> answers the empty string when the block has no constant column
  of that name, \<^verbatim>\<open>getColumnHeader\<close> answers nil when it has no header of that name.
\<close>

record columnHeader =
  ch_name :: string
  ch_valueType :: valueType
  ch_minValue :: "64 word"
  ch_maxValue :: "64 word"
  ch_valuesDict :: "string list"

record blockSearch =
  bs_constColumns :: "(string \<times> string) list"
  bs_columnHeaders :: "columnHeader list"
  bs_values :: "(string \<times> string list) list"

definition getConstColumnValue :: "blockSearch \<Rightarrow> string \<Rightarrow> string" where
  "getConstColumnValue bs name =
     (case map_of (bs_constColumns bs) name of None \<Rightarrow> [] | Some v \<Rightarrow> v)"

definition getColumnHeader :: "blockSearch \<Rightarrow> string \<Rightarrow> columnHeader option" where
  "getColumnHeader bs name = find (\<lambda>ch. ch_name ch = name) (bs_columnHeaders bs)"

definition getValuesForColumn :: "blockSearch \<Rightarrow> columnHeader \<Rightarrow> string list" where
  "getValuesForColumn bs ch =
     (case map_of (bs_values bs) (ch_name ch) of None \<Rightarrow> [] | Some vs \<Rightarrow> vs)"

text \<open>
  Modelled from the spec: \<^verbatim>\<open>visitValues\<close>, the typed scan (step 5 of the evaluator): it
  iterates the set bits of the bitmap and hands the encoded value of each such row to the
  predicate; forEachSetBit clears the bits whose predicate returns false. Reading a row
  the column has no value for is a runtime panic.
\<close>

definition visitValues ::
  "blockSearch \<Rightarrow> columnHeader \<Rightarrow> bitmap \<Rightarrow> (string \<Rightarrow> error + bool) \<Rightarrow> error + bitmap" where
  "visitValues bs ch bm f =
     (let values = getValuesForColumn bs ch in
      forEachSetBit bm
        (\<lambda>idx. if idx < length values then f (values ! idx) else Inl IndexOutOfRange))"

text \<open>
  Modelled from the spec: \<^verbatim>\<open>matchEncodedValuesDict\<close>, the second half of the dict
  pre-match (step 4): a single pass over the encoded values keeps only the rows whose
  byte is in the set of surviving dictionary indices. An encoded dict value is one byte.
\<close>

definition matchEncodedValuesDict ::
  "blockSearch \<Rightarrow> columnHeader \<Rightarrow> bitmap \<Rightarrow> 8 word list \<Rightarrow> error + bitmap" where
  "matchEncodedValuesDict bs ch bm encodedValues =
     visitValues bs ch bm
       (\<lambda>v. if length v \<noteq> 1 then Inl UnexpectedLength
            else Inr (of_char (v ! 0) \<in> set encodedValues))"

section \<open>The filter interface, filterNot and filterOr\<close>

text \<open>
  The Go interface \<^verbatim>\<open>filter\<close> is used through its method \<^verbatim>\<open>apply(bs, bm)\<close>, which
  mutates the bitmap: a filter is the function from the block and the bitmap to the
  updated bitmap.
\<close>

type_synonym filter_apply = "blockSearch \<Rightarrow> bitmap \<Rightarrow> error + bitmap"

definition filterNot_apply :: "filter_apply \<Rightarrow> blockSearch \<Rightarrow> bitmap \<Rightarrow> error + bitmap" where
  "filterNot_apply f bs bm =
     (let bmTmp = getBitmap (bitsLen bm);
          bmTmp = copyFrom bmTmp bm
      in case f bs bmTmp of
           Inl e \<Rightarrow> Inl e
         | Inr bmTmp \<Rightarrow> andNot bm bmTmp)"

text \<open>
  The loop of \<^verbatim>\<open>filterOr.apply\<close>, with \<^verbatim>\<open>bmResult\<close> as the loop state (\<^verbatim>\<open>bmTmp\<close> is
  overwritten by copyFrom at the top of every round). The \<^verbatim>\<open>break\<close> returns the
  accumulated result.
\<close>

fun filterOr_loop ::
  "filter_apply list \<Rightarrow> blockSearch \<Rightarrow> bitmap \<Rightarrow> bitmap \<Rightarrow> error + bitmap" where
  "filterOr_loop [] bs bm bmResult = Inr bmResult"
| "filterOr_loop (f # filters) bs bm bmResult =
     (case andNot (copyFrom (getBitmap (bitsLen bm)) bm) bmResult of
        Inl e \<Rightarrow> Inl e
      | Inr bmTmp \<Rightarrow>
          if isZero bmTmp then Inr bmResult
          else
            (case f bs bmTmp of
               Inl e \<Rightarrow> Inl e
             | Inr bmTmp \<Rightarrow>
                 (case or_bm bmResult bmTmp of
                    Inl e \<Rightarrow> Inl e
                  | Inr bmResult \<Rightarrow> filterOr_loop filters bs bm bmResult)))"

definition filterOr_apply :: "filter_apply list \<Rightarrow> blockSearch \<Rightarrow> bitmap \<Rightarrow> error + bitmap" where
  "filterOr_apply filters bs bm =
     (case filterOr_loop filters bs bm (getBitmap (bitsLen bm)) of
        Inl e \<Rightarrow> Inl e
      | Inr bmResult \<Rightarrow> Inr (copyFrom bm bmResult))"

text \<open>
  The evaluation of OR in the words of the spec, for comparison with the code: every
  branch is applied to a full private copy of the bitmap, and the results are united.
\<close>

fun or_spec_loop ::
  "filter_apply list \<Rightarrow> blockSearch \<Rightarrow> bitmap \<Rightarrow> bitmap \<Rightarrow> error + bitmap" where
  "or_spec_loop [] bs bm acc = Inr acc"
| "or_spec_loop (f # filters) bs bm acc =
     (case f bs (copyFrom (getBitmap (bitsLen bm)) bm) of
        Inl e \<Rightarrow> Inl e
      | Inr r \<Rightarrow>
          (case or_bm acc r of
             Inl e \<Rightarrow> Inl e
           | Inr acc \<Rightarrow> or_spec_loop filters bs bm acc))"

definition or_spec :: "filter_apply list \<Rightarrow> blockSearch \<Rightarrow> bitmap \<Rightarrow> error + bitmap" where
  "or_spec filters bs bm = or_spec_loop filters bs bm (getBitmap (bitsLen bm))"

text \<open>
  A filter that acts on every bitmap of \<open>n\<close> rows, the row count of the block, as the
  intersection with the rows \<open>P\<close>.
\<close>

definition acts_as_inter :: "filter_apply \<Rightarrow> blockSearch \<Rightarrow> nat \<Rightarrow> nat set \<Rightarrow> bool" where
  "acts_as_inter f bs n P = (\<forall>bm. length bm = n \<longrightarrow> f bs bm = Inr (keepRows P bm))"

section \<open>Strings\<close>

text \<open>
  A Go string is a sequence of bytes, and the operators \<^verbatim>\<open><\<close>, \<^verbatim>\<open>>\<close> and \<^verbatim>\<open>>=\<close> on
  strings compare byte by byte, a proper prefix being the smaller string.
\<close>

fun string_less :: "string \<Rightarrow> string \<Rightarrow> bool" where
  "string_less [] [] = False"
| "string_less [] (b # bs) = True"
| "string_less (a # as) [] = False"
| "string_less (a # as) (b # bs) =
     (if (of_char a :: nat) < of_char b then True
      else if (of_char b :: nat) < of_char a then False
      else string_less as bs)"

definition string_greater :: "string \<Rightarrow> string \<Rightarrow> bool" where
  "string_greater a b = string_less b a"

definition string_ge :: "string \<Rightarrow> string \<Rightarrow> bool" where
  "string_ge a b = (\<not> string_less a b)"

section \<open>filterStringRange (filter_string_range.go)\<close>

record filterStringRange =
  fsr_fieldName :: string
  fsr_minValue :: string
  fsr_maxValue :: string

text \<open>
  The functions that render an encoded value as a string are not among the sources
  (values_encoder.go); the filter takes them as parameters. Each receives the encoded
  bytes of one value and panics on a value of the wrong length. The block and the
  scratch buffer they also receive in Go serve the panic message and the allocation
  only.
\<close>

record valueFormatters =
  toUint8String :: "string \<Rightarrow> error + string"
  toUint16String :: "string \<Rightarrow> error + string"
  toUint32String :: "string \<Rightarrow> error + string"
  toUint64String :: "string \<Rightarrow> error + string"
  toFloat64StringExt :: "string \<Rightarrow> error + string"
  toIPv4StringExt :: "string \<Rightarrow> error + string"
  toTimestampISO8601StringExt :: "string \<Rightarrow> error + string"

definition matchStringRange :: "string \<Rightarrow> string \<Rightarrow> string \<Rightarrow> bool" where
  "matchStringRange s minValue maxValue = (string_ge s minValue \<and> string_less s maxValue)"

text \<open>
  The seven typed matchers of the file share one shape: a guard on the bounds that
  resets the bitmap, then a scan that renders each value and matches the string.
\<close>

definition matchFormattedByStringRange ::
  "(string \<Rightarrow> error + string) \<Rightarrow> blockSearch \<Rightarrow> columnHeader \<Rightarrow> bitmap \<Rightarrow> string \<Rightarrow> string
     \<Rightarrow> error + bitmap" where
  "matchFormattedByStringRange toString bs ch bm minValue maxValue =
     visitValues bs ch bm
       (\<lambda>v. case toString v of
              Inl e \<Rightarrow> Inl e
            | Inr s \<Rightarrow> Inr (matchStringRange s minValue maxValue))"

definition matchTimestampISO8601ByStringRange ::
  "valueFormatters \<Rightarrow> blockSearch \<Rightarrow> columnHeader \<Rightarrow> bitmap \<Rightarrow> string \<Rightarrow> string
     \<Rightarrow> error + bitmap" where
  "matchTimestampISO8601ByStringRange fmt bs ch bm minValue maxValue =
     (if string_greater minValue ''9'' \<or> string_less maxValue ''0'' then Inr (resetBits bm)
      else matchFormattedByStringRange (toTimestampISO8601StringExt fmt) bs ch bm minValue maxValue)"

definition matchIPv4ByStringRange ::
  "valueFormatters \<Rightarrow> blockSearch \<Rightarrow> columnHeader \<Rightarrow> bitmap \<Rightarrow> string \<Rightarrow> string
     \<Rightarrow> error + bitmap" where
  "matchIPv4ByStringRange fmt bs ch bm minValue maxValue =
     (if string_greater minValue ''9'' \<or> string_less maxValue ''0'' then Inr (resetBits bm)
      else matchFormattedByStringRange (toIPv4StringExt fmt) bs ch bm minValue maxValue)"

definition matchFloat64ByStringRange ::
  "valueFormatters \<Rightarrow> blockSearch \<Rightarrow> columnHeader \<Rightarrow> bitmap \<Rightarrow> string \<Rightarrow> string
     \<Rightarrow> error + bitmap" where
  "matchFloat64ByStringRange fmt bs ch bm minValue maxValue =
     (if string_greater minValue ''9'' \<or> string_less maxValue ''+'' then Inr (resetBits bm)
      else matchFormattedByStringRange (toFloat64StringExt fmt) bs ch bm minValue maxValue)"

text \<open>
  The dictionary loop collects \<^verbatim>\<open>byte(i)\<close> for every entry \<open>i\<close> whose value matches.
\<close>

definition dictIndexes :: "(string \<Rightarrow> bool) \<Rightarrow> string list \<Rightarrow> 8 word list" where
  "dictIndexes p values =
     map (\<lambda>(i, v). of_nat i) (filter (\<lambda>(i, v). p v) (zip [0..<length values] values))"

definition matchValuesDictByStringRange ::
  "blockSearch \<Rightarrow> columnHeader \<Rightarrow> bitmap \<Rightarrow> string \<Rightarrow> string \<Rightarrow> error + bitmap" where
  "matchValuesDictByStringRange bs ch bm minValue maxValue =
     matchEncodedValuesDict bs ch bm
       (dictIndexes (\<lambda>v. matchStringRange v minValue maxValue) (ch_valuesDict ch))"

definition matchStringByStringRange ::
  "blockSearch \<Rightarrow> columnHeader \<Rightarrow> bitmap \<Rightarrow> string \<Rightarrow> string \<Rightarrow> error + bitmap" where
  "matchStringByStringRange bs ch bm minValue maxValue =
     visitValues bs ch bm (\<lambda>v. Inr (matchStringRange v minValue maxValue))"

definition matchUint8ByStringRange ::
  "valueFormatters \<Rightarrow> blockSearch \<Rightarrow> columnHeader \<Rightarrow> bitmap \<Rightarrow> string \<Rightarrow> string
     \<Rightarrow> error + bitmap" where
  "matchUint8ByStringRange fmt bs ch bm minValue maxValue =
     (if string_greater minValue ''9'' \<or> string_less maxValue ''0'' then Inr (resetBits bm)
      else matchFormattedByStringRange (toUint8String fmt) bs ch bm minValue maxValue)"

definition matchUint16ByStringRange ::
  "valueFormatters \<Rightarrow> blockSearch \<Rightarrow> columnHeader \<Rightarrow> bitmap \<Rightarrow> string \<Rightarrow> string
     \<Rightarrow> error + bitmap" where
  "matchUint16ByStringRange fmt bs ch bm minValue maxValue =
     (if string_greater minValue ''9'' \<or> string_less maxValue ''0'' then Inr (resetBits bm)
      else matchFormattedByStringRange (toUint16String fmt) bs ch bm minValue maxValue)"

definition matchUint32ByStringRange ::
  "valueFormatters \<Rightarrow> blockSearch \<Rightarrow> columnHeader \<Rightarrow> bitmap \<Rightarrow> string \<Rightarrow> string
     \<Rightarrow> error + bitmap" where
  "matchUint32ByStringRange fmt bs ch bm minValue maxValue =
     (if string_greater minValue ''9'' \<or> string_less maxValue ''0'' then Inr (resetBits bm)
      else matchFormattedByStringRange (toUint32String fmt) bs ch bm minValue maxValue)"

definition matchUint64ByStringRange ::
  "valueFormatters \<Rightarrow> blockSearch \<Rightarrow> columnHeader \<Rightarrow> bitmap \<Rightarrow> string \<Rightarrow> string
     \<Rightarrow> error + bitmap" where
  "matchUint64ByStringRange fmt bs ch bm minValue maxValue =
     (if string_greater minValue ''9'' \<or> string_less maxValue ''0'' then Inr (resetBits bm)
      else matchFormattedByStringRange (toUint64String fmt) bs ch bm minValue maxValue)"

definition filterStringRange_apply :: "valueFormatters \<Rightarrow> filterStringRange \<Rightarrow> filter_apply" where
  "filterStringRange_apply fmt fr bs bm =
     (let fieldName = fsr_fieldName fr;
          minValue = fsr_minValue fr;
          maxValue = fsr_maxValue fr
      in
      if string_greater minValue maxValue then Inr (resetBits bm)
      else
        let v = getConstColumnValue bs fieldName in
        if v \<noteq> [] then
          (if \<not> matchStringRange v minValue maxValue then Inr (resetBits bm) else Inr bm)
        else
          (case getColumnHeader bs fieldName of
             None \<Rightarrow>
               (if \<not> matchStringRange [] minValue maxValue then Inr (resetBits bm) else Inr bm)
           | Some ch \<Rightarrow>
               (case ch_valueType ch of
                  valueTypeString \<Rightarrow> matchStringByStringRange bs ch bm minValue maxValue
                | valueTypeDict \<Rightarrow> matchValuesDictByStringRange bs ch bm minValue maxValue
                | valueTypeUint8 \<Rightarrow> matchUint8ByStringRange fmt bs ch bm minValue maxValue
                | valueTypeUint16 \<Rightarrow> matchUint16ByStringRange fmt bs ch bm minValue maxValue
                | valueTypeUint32 \<Rightarrow> matchUint32ByStringRange fmt bs ch bm minValue maxValue
                | valueTypeUint64 \<Rightarrow> matchUint64ByStringRange fmt bs ch bm minValue maxValue
                | valueTypeFloat64 \<Rightarrow> matchFloat64ByStringRange fmt bs ch bm minValue maxValue
                | valueTypeIPv4 \<Rightarrow> matchIPv4ByStringRange fmt bs ch bm minValue maxValue
                | valueTypeTimestampISO8601 \<Rightarrow>
                    matchTimestampISO8601ByStringRange fmt bs ch bm minValue maxValue
                | valueTypeUnknown \<Rightarrow> Inl UnknownValueType)))"

section \<open>float64\<close>

text \<open>
  A float64 is modelled by the value it denotes: NaN, an infinity, or a real number.
  Every finite float64 denotes a real number, so a statement about every \<open>Finite r\<close>
  covers every finite float64; the two zeros are one value, which the code cannot tell
  apart since it only compares, rounds to an integer and converts. The comparisons are
  those of IEEE 754: each is false when an operand is NaN. \<^verbatim>\<open>math.Ceil\<close> and
  \<^verbatim>\<open>math.Floor\<close> are exact and leave NaN and the infinities unchanged.
\<close>

datatype float64 = NaN | NegInf | Finite real | PosInf

fun float64_less :: "float64 \<Rightarrow> float64 \<Rightarrow> bool" where
  "float64_less NaN b = False"
| "float64_less a NaN = False"
| "float64_less a NegInf = False"
| "float64_less NegInf b = True"
| "float64_less PosInf b = False"
| "float64_less (Finite x) PosInf = True"
| "float64_less (Finite x) (Finite y) = (x < y)"

fun float64_le :: "float64 \<Rightarrow> float64 \<Rightarrow> bool" where
  "float64_le NaN b = False"
| "float64_le a NaN = False"
| "float64_le NegInf b = True"
| "float64_le a PosInf = True"
| "float64_le PosInf b = False"
| "float64_le (Finite x) NegInf = False"
| "float64_le (Finite x) (Finite y) = (x \<le> y)"

definition float64_greater :: "float64 \<Rightarrow> float64 \<Rightarrow> bool" where
  "float64_greater a b = float64_less b a"

definition float64_ge :: "float64 \<Rightarrow> float64 \<Rightarrow> bool" where
  "float64_ge a b = float64_le b a"

fun float64_Ceil :: "float64 \<Rightarrow> float64" where
  "float64_Ceil (Finite x) = Finite (of_int \<lceil>x\<rceil>)"
| "float64_Ceil a = a"

fun float64_Floor :: "float64 \<Rightarrow> float64" where
  "float64_Floor (Finite x) = Finite (of_int \<lfloor>x\<rfloor>)"
| "float64_Floor a = a"

text \<open>
  The Go conversion \<^verbatim>\<open>uint64(f)\<close> discards the fraction. When the result does not fit
  (and for NaN and the infinities) the conversion succeeds with a value that depends on
  the implementation: the parameter \<open>unrepresentable\<close> gives that value.
\<close>

definition truncReal :: "real \<Rightarrow> int" where
  "truncReal x = (if 0 \<le> x then \<lfloor>x\<rfloor> else \<lceil>x\<rceil>)"

fun uint64_of_float64 :: "(float64 \<Rightarrow> 64 word) \<Rightarrow> float64 \<Rightarrow> 64 word" where
  "uint64_of_float64 unrepresentable (Finite x) =
     (if 0 \<le> truncReal x \<and> truncReal x < 2 ^ 64 then word_of_int (truncReal x)
      else unrepresentable (Finite x))"
| "uint64_of_float64 unrepresentable a = unrepresentable a"

section \<open>filterRange (filter_range.go)\<close>

record filterRange =
  fr_fieldName :: string
  fr_minValue :: float64
  fr_maxValue :: float64
  fr_stringRepr :: string

text \<open>
  What the filter uses and the sources do not hold: \<^verbatim>\<open>tryParseFloat64\<close> (the tolerant
  number parser), \<^verbatim>\<open>math.Float64frombits\<close> and the implementation-dependent result of
  converting an unrepresentable float64 to uint64.
\<close>

record rangeEnv =
  tryParseFloat64 :: "string \<Rightarrow> float64 option"
  float64frombits :: "64 word \<Rightarrow> float64"
  unrepresentable :: "float64 \<Rightarrow> 64 word"

text \<open>
  Modelled from the spec: \<^verbatim>\<open>encoding.UnmarshalUint16\<close>, \<^verbatim>\<open>UnmarshalUint32\<close> and
  \<^verbatim>\<open>UnmarshalUint64\<close> (lib/encoding is not among the sources): an encoded uintN value
  is the big-endian unsigned integer of its N/8 bytes.
\<close>

definition bigEndian :: "string \<Rightarrow> nat" where
  "bigEndian b = foldl (\<lambda>n c. n * 256 + of_char c) 0 b"

definition unmarshalUint16 :: "string \<Rightarrow> 16 word" where
  "unmarshalUint16 b = of_nat (bigEndian (take 2 b))"

definition unmarshalUint32 :: "string \<Rightarrow> 32 word" where
  "unmarshalUint32 b = of_nat (bigEndian (take 4 b))"

definition unmarshalUint64 :: "string \<Rightarrow> 64 word" where
  "unmarshalUint64 b = of_nat (bigEndian (take 8 b))"

text \<open>
  \<^verbatim>\<open>math.MaxUint64\<close> is the untyped constant \<open>2\<^sup>6\<^sup>4 - 1\<close>; compared with a float64 it is
  converted to float64, where it rounds to \<open>2\<^sup>6\<^sup>4\<close>.
\<close>

definition toUint64Clamp :: "rangeEnv \<Rightarrow> float64 \<Rightarrow> 64 word" where
  "toUint64Clamp env f =
     (if float64_less f (Finite 0) then 0
      else if float64_greater f (Finite (2 ^ 64)) then - 1
      else uint64_of_float64 (unrepresentable env) f)"

definition toUint64Range :: "rangeEnv \<Rightarrow> float64 \<Rightarrow> float64 \<Rightarrow> 64 word \<times> 64 word" where
  "toUint64Range env minValue maxValue =
     (let minValue = float64_Ceil minValue;
          maxValue = float64_Floor maxValue
      in (toUint64Clamp env minValue, toUint64Clamp env maxValue))"

definition matchRange :: "rangeEnv \<Rightarrow> string \<Rightarrow> float64 \<Rightarrow> float64 \<Rightarrow> bool" where
  "matchRange env s minValue maxValue =
     (case tryParseFloat64 env s of
        None \<Rightarrow> False
      | Some f \<Rightarrow> float64_ge f minValue \<and> float64_le f maxValue)"

definition matchFloat64ByRange ::
  "rangeEnv \<Rightarrow> blockSearch \<Rightarrow> columnHeader \<Rightarrow> bitmap \<Rightarrow> float64 \<Rightarrow> float64 \<Rightarrow> error + bitmap" where
  "matchFloat64ByRange env bs ch bm minValue maxValue =
     (if float64_greater minValue (float64frombits env (ch_maxValue ch))
         \<or> float64_less maxValue (float64frombits env (ch_minValue ch))
      then Inr (resetBits bm)
      else
        visitValues bs ch bm
          (\<lambda>v. if length v \<noteq> 8 then Inl UnexpectedLength
               else
                 let n = unmarshalUint64 v;
                     f = float64frombits env n
                 in Inr (float64_ge f minValue \<and> float64_le f maxValue)))"

definition matchValuesDictByRange ::
  "rangeEnv \<Rightarrow> blockSearch \<Rightarrow> columnHeader \<Rightarrow> bitmap \<Rightarrow> float64 \<Rightarrow> float64 \<Rightarrow> error + bitmap" where
  "matchValuesDictByRange env bs ch bm minValue maxValue =
     matchEncodedValuesDict bs ch bm
       (dictIndexes (\<lambda>v. matchRange env v minValue maxValue) (ch_valuesDict ch))"

definition matchStringByRange ::
  "rangeEnv \<Rightarrow> blockSearch \<Rightarrow> columnHeader \<Rightarrow> bitmap \<Rightarrow> float64 \<Rightarrow> float64 \<Rightarrow> error + bitmap" where
  "matchStringByRange env bs ch bm minValue maxValue =
     visitValues bs ch bm (\<lambda>v. Inr (matchRange env v minValue maxValue))"

definition matchUint8ByRange ::
  "rangeEnv \<Rightarrow> blockSearch \<Rightarrow> columnHeader \<Rightarrow> bitmap \<Rightarrow> float64 \<Rightarrow> float64 \<Rightarrow> error + bitmap" where
  "matchUint8ByRange env bs ch bm minValue maxValue =
     (let (minValueUint, maxValueUint) = toUint64Range env minValue maxValue in
      if float64_less maxValue (Finite 0) \<or> minValueUint > ch_maxValue ch
         \<or> maxValueUint < ch_minValue ch
      then Inr (resetBits bm)
      else
        visitValues bs ch bm
          (\<lambda>v. if length v \<noteq> 1 then Inl UnexpectedLength
               else
                 let n = (of_char (v ! 0) :: 64 word)
                 in Inr (n \<ge> minValueUint \<and> n \<le> maxValueUint)))"

definition matchUint16ByRange ::
  "rangeEnv \<Rightarrow> blockSearch \<Rightarrow> columnHeader \<Rightarrow> bitmap \<Rightarrow> float64 \<Rightarrow> float64 \<Rightarrow> error + bitmap" where
  "matchUint16ByRange env bs ch bm minValue maxValue =
     (let (minValueUint, maxValueUint) = toUint64Range env minValue maxValue in
      if float64_less maxValue (Finite 0) \<or> minValueUint > ch_maxValue ch
         \<or> maxValueUint < ch_minValue ch
      then Inr (resetBits bm)
      else
        visitValues bs ch bm
          (\<lambda>v. if length v \<noteq> 2 then Inl UnexpectedLength
               else
                 let n = (ucast (unmarshalUint16 v) :: 64 word)
                 in Inr (n \<ge> minValueUint \<and> n \<le> maxValueUint)))"

definition matchUint32ByRange ::
  "rangeEnv \<Rightarrow> blockSearch \<Rightarrow> columnHeader \<Rightarrow> bitmap \<Rightarrow> float64 \<Rightarrow> float64 \<Rightarrow> error + bitmap" where
  "matchUint32ByRange env bs ch bm minValue maxValue =
     (let (minValueUint, maxValueUint) = toUint64Range env minValue maxValue in
      if float64_less maxValue (Finite 0) \<or> minValueUint > ch_maxValue ch
         \<or> maxValueUint < ch_minValue ch
      then Inr (resetBits bm)
      else
        visitValues bs ch bm
          (\<lambda>v. if length v \<noteq> 4 then Inl UnexpectedLength
               else
                 let n = (ucast (unmarshalUint32 v) :: 64 word)
                 in Inr (n \<ge> minValueUint \<and> n \<le> maxValueUint)))"

definition matchUint64ByRange ::
  "rangeEnv \<Rightarrow> blockSearch \<Rightarrow> columnHeader \<Rightarrow> bitmap \<Rightarrow> float64 \<Rightarrow> float64 \<Rightarrow> error + bitmap" where
  "matchUint64ByRange env bs ch bm minValue maxValue =
     (let (minValueUint, maxValueUint) = toUint64Range env minValue maxValue in
      if float64_less maxValue (Finite 0) \<or> minValueUint > ch_maxValue ch
         \<or> maxValueUint < ch_minValue ch
      then Inr (resetBits bm)
      else
        visitValues bs ch bm
          (\<lambda>v. if length v \<noteq> 8 then Inl UnexpectedLength
               else
                 let n = unmarshalUint64 v
                 in Inr (n \<ge> minValueUint \<and> n \<le> maxValueUint)))"

definition filterRange_apply :: "rangeEnv \<Rightarrow> filterRange \<Rightarrow> filter_apply" where
  "filterRange_apply env fr bs bm =
     (let fieldName = fr_fieldName fr;
          minValue = fr_minValue fr;
          maxValue = fr_maxValue fr
      in
      if float64_greater minValue maxValue then Inr (resetBits bm)
      else
        let v = getConstColumnValue bs fieldName in
        if v \<noteq> [] then
          (if \<not> matchRange env v minValue maxValue then Inr (resetBits bm) else Inr bm)
        else
          (case getColumnHeader bs fieldName of
             None \<Rightarrow> Inr (resetBits bm)
           | Some ch \<Rightarrow>
               (case ch_valueType ch of
                  valueTypeString \<Rightarrow> matchStringByRange env bs ch bm minValue maxValue
                | valueTypeDict \<Rightarrow> matchValuesDictByRange env bs ch bm minValue maxValue
                | valueTypeUint8 \<Rightarrow> matchUint8ByRange env bs ch bm minValue maxValue
                | valueTypeUint16 \<Rightarrow> matchUint16ByRange env bs ch bm minValue maxValue
                | valueTypeUint32 \<Rightarrow> matchUint32ByRange env bs ch bm minValue maxValue
                | valueTypeUint64 \<Rightarrow> matchUint64ByRange env bs ch bm minValue maxValue
                | valueTypeFloat64 \<Rightarrow> matchFloat64ByRange env bs ch bm minValue maxValue
                | valueTypeIPv4 \<Rightarrow> Inr (resetBits bm)
                | valueTypeTimestampISO8601 \<Rightarrow> Inr (resetBits bm)
                | valueTypeUnknown \<Rightarrow> Inl UnknownValueType)))"

section \<open>uintN columns under filterRange\<close>

text \<open>
  The stored value of a uintN column, decoded as the spec says: the big-endian unsigned
  integer of the encoded bytes, as a 64-bit number; and the number of bytes of an
  encoded value of each uintN type.
\<close>

definition storedUint :: "string \<Rightarrow> 64 word" where
  "storedUint v = of_nat (bigEndian v)"

fun uintBytes :: "valueType \<Rightarrow> nat option" where
  "uintBytes valueTypeUint8 = Some 1"
| "uintBytes valueTypeUint16 = Some 2"
| "uintBytes valueTypeUint32 = Some 4"
| "uintBytes valueTypeUint64 = Some 8"
| "uintBytes t = None"

text \<open>
  The clamp of the claim: into the range from 0 to \<open>2\<^sup>6\<^sup>4 - 1\<close>. NaN has no clamp; the
  condition below is false for a NaN bound whatever value stands here.
\<close>

fun clamp_uint64 :: "float64 \<Rightarrow> 64 word" where
  "clamp_uint64 (Finite x) = word_of_int (max 0 (min (2 ^ 64 - 1) \<lfloor>x\<rfloor>))"
| "clamp_uint64 NegInf = 0"
| "clamp_uint64 PosInf = - 1"
| "clamp_uint64 NaN = 0"

text \<open>
  The stored values that the claim, with the order of the bounds added, lets filterRange
  match on a uintN column: minValue is at most maxValue, maxValue is at least 0, and the
  value lies between the clamped ceiling of minValue and the clamped floor of maxValue.
\<close>

definition uintRangeMatches :: "filterRange \<Rightarrow> 64 word \<Rightarrow> bool" where
  "uintRangeMatches fr n =
     (float64_le (fr_minValue fr) (fr_maxValue fr)
      \<and> float64_ge (fr_maxValue fr) (Finite 0)
      \<and> clamp_uint64 (float64_Ceil (fr_minValue fr)) \<le> n
      \<and> n \<le> clamp_uint64 (float64_Floor (fr_maxValue fr)))"

section \<open>filterAnyCasePhrase (filter_any_case_phrase.go)\<close>

text \<open>
  The fields \<^verbatim>\<open>phraseLowercase\<close> and \<^verbatim>\<open>tokens\<close> of the Go struct cache, behind
  \<^verbatim>\<open>sync.Once\<close>, values computed from \<^verbatim>\<open>phrase\<close>; the model computes them at each use.
\<close>

record filterAnyCasePhrase =
  fp_fieldName :: string
  fp_phrase :: string

text \<open>
  Modelled from the spec: the typed matchers of the exact and the phrase filters, which
  filterAnyCasePhrase calls on numeric, ipv4 and timestamp columns (filter_exact.go and
  filter_phrase.go are not among the sources). By the steps 3 and 5 of the evaluator
  such a matcher either skips the block on what its header tells (resetBits), or scans
  the set rows with a predicate on the encoded value. The skip test and the predicate
  are parameters.
\<close>

record typedMatcher =
  tm_skip :: "blockSearch \<Rightarrow> columnHeader \<Rightarrow> string \<Rightarrow> string list \<Rightarrow> bool"
  tm_match :: "string \<Rightarrow> string list \<Rightarrow> string \<Rightarrow> error + bool"

definition typedScan ::
  "typedMatcher \<Rightarrow> blockSearch \<Rightarrow> columnHeader \<Rightarrow> bitmap \<Rightarrow> string \<Rightarrow> string list
     \<Rightarrow> error + bitmap" where
  "typedScan tm bs ch bm phrase tokens =
     (if tm_skip tm bs ch phrase tokens then Inr (resetBits bm)
      else visitValues bs ch bm (tm_match tm phrase tokens))"

text \<open>
  What the filter uses and the sources do not hold: \<^verbatim>\<open>strings.ToLower\<close>,
  \<^verbatim>\<open>strings.ToUpper\<close>, \<^verbatim>\<open>stringsutil.AppendLowercase\<close> (on an empty buffer),
  \<^verbatim>\<open>matchPhrase\<close>, \<^verbatim>\<open>tokenizeStrings\<close>, and the parameters of the typed matchers.
\<close>

record phraseEnv =
  toLower :: "string \<Rightarrow> string"
  toUpper :: "string \<Rightarrow> string"
  appendLowercase :: "string \<Rightarrow> string"
  matchPhrase :: "string \<Rightarrow> string \<Rightarrow> bool"
  tokenizeStrings :: "string list \<Rightarrow> string list"
  matchUint8ByExactValue :: typedMatcher
  matchUint16ByExactValue :: typedMatcher
  matchUint32ByExactValue :: typedMatcher
  matchUint64ByExactValue :: typedMatcher
  matchFloat64ByPhrase :: typedMatcher
  matchIPv4ByPhrase :: typedMatcher
  matchTimestampISO8601ByPhrase :: typedMatcher

definition getTokens :: "phraseEnv \<Rightarrow> filterAnyCasePhrase \<Rightarrow> string list" where
  "getTokens env fp = tokenizeStrings env [fp_phrase fp]"

definition getPhraseLowercase :: "phraseEnv \<Rightarrow> filterAnyCasePhrase \<Rightarrow> string" where
  "getPhraseLowercase env fp = toLower env (fp_phrase fp)"

text \<open>\<^verbatim>\<open>utf8.RuneSelf\<close> is 0x80.\<close>

definition isASCIILowercase :: "string \<Rightarrow> bool" where
  "isASCIILowercase s =
     list_all (\<lambda>c. \<not> ((of_char c :: nat) \<ge> 128
                      \<or> ((of_char c :: nat) \<ge> of_char CHR ''A''
                          \<and> (of_char c :: nat) \<le> of_char CHR ''Z''))) s"

definition matchAnyCasePhrase :: "phraseEnv \<Rightarrow> string \<Rightarrow> string \<Rightarrow> bool" where
  "matchAnyCasePhrase env s phraseLowercase =
     (if length phraseLowercase = 0 then length s = 0
      else if length phraseLowercase > length s then False
      else if isASCIILowercase s then matchPhrase env s phraseLowercase
      else
        let sLowercase = appendLowercase env s
        in matchPhrase env sLowercase phraseLowercase)"

definition matchValuesDictByAnyCasePhrase ::
  "phraseEnv \<Rightarrow> blockSearch \<Rightarrow> columnHeader \<Rightarrow> bitmap \<Rightarrow> string \<Rightarrow> error + bitmap" where
  "matchValuesDictByAnyCasePhrase env bs ch bm phraseLowercase =
     matchEncodedValuesDict bs ch bm
       (dictIndexes (\<lambda>v. matchAnyCasePhrase env v phraseLowercase) (ch_valuesDict ch))"

definition matchStringByAnyCasePhrase ::
  "phraseEnv \<Rightarrow> blockSearch \<Rightarrow> columnHeader \<Rightarrow> bitmap \<Rightarrow> string \<Rightarrow> error + bitmap" where
  "matchStringByAnyCasePhrase env bs ch bm phraseLowercase =
     visitValues bs ch bm (\<lambda>v. Inr (matchAnyCasePhrase env v phraseLowercase))"

definition filterAnyCasePhrase_apply :: "phraseEnv \<Rightarrow> filterAnyCasePhrase \<Rightarrow> filter_apply" where
  "filterAnyCasePhrase_apply env fp bs bm =
     (let fieldName = fp_fieldName fp;
          phraseLowercase = getPhraseLowercase env fp;
          v = getConstColumnValue bs fieldName
      in
      if v \<noteq> [] then
        (if \<not> matchAnyCasePhrase env v phraseLowercase then Inr (resetBits bm) else Inr bm)
      else
        (case getColumnHeader bs fieldName of
           None \<Rightarrow> (if length phraseLowercase > 0 then Inr (resetBits bm) else Inr bm)
         | Some ch \<Rightarrow>
             let tokens = getTokens env fp in
             (case ch_valueType ch of
                valueTypeString \<Rightarrow> matchStringByAnyCasePhrase env bs ch bm phraseLowercase
              | valueTypeDict \<Rightarrow> matchValuesDictByAnyCasePhrase env bs ch bm phraseLowercase
              | valueTypeUint8 \<Rightarrow>
                  typedScan (matchUint8ByExactValue env) bs ch bm phraseLowercase tokens
              | valueTypeUint16 \<Rightarrow>
                  typedScan (matchUint16ByExactValue env) bs ch bm phraseLowercase tokens
              | valueTypeUint32 \<Rightarrow>
                  typedScan (matchUint32ByExactValue env) bs ch bm phraseLowercase tokens
              | valueTypeUint64 \<Rightarrow>
                  typedScan (matchUint64ByExactValue env) bs ch bm phraseLowercase tokens
              | valueTypeFloat64 \<Rightarrow>
                  typedScan (matchFloat64ByPhrase env) bs ch bm phraseLowercase tokens
              | valueTypeIPv4 \<Rightarrow>
                  typedScan (matchIPv4ByPhrase env) bs ch bm phraseLowercase tokens
              | valueTypeTimestampISO8601 \<Rightarrow>
                  (let phraseUppercase = toUpper env (fp_phrase fp)
                   in typedScan (matchTimestampISO8601ByPhrase env) bs ch bm phraseUppercase tokens)
              | valueTypeUnknown \<Rightarrow> Inl UnknownValueType)))"

section \<open>count_empty (stats_count_empty.go)\<close>

text \<open>
  Modelled from the spec: the block result that a stats function reads, and its
  accessors (block_result.go is not among the sources). A block result has one timestamp
  per row and a list of columns. A column is constant (its single value stored once, at
  index 0 of the encoded values), or the time column (its values are the timestamps), or
  it holds one encoded value per row, of its value type, with the dictionary of a dict
  column. \<^verbatim>\<open>getColumnByName\<close> answers a constant column with the empty value for a name
  the block result does not have. \<^verbatim>\<open>getValueAtRow\<close> and \<^verbatim>\<open>getValues\<close> give the values
  as strings: the encoded value of a string column, the dictionary entry of a dict
  column, the canonical string form of a number, an address or a timestamp, for which
  the formatters are parameters.
\<close>

record blockResultColumn =
  c_name :: string
  c_isConst :: bool
  c_isTime :: bool
  c_valueType :: valueType
  c_encodedValues :: "string list"
  c_dictValues :: "string list"

record blockResult =
  br_timestamps :: "int list"
  br_cs :: "blockResultColumn list"

record resultFormatters =
  formatTimestamp :: "int \<Rightarrow> string"
  formatEncoded :: "valueType \<Rightarrow> string \<Rightarrow> error + string"

definition getColumns :: "blockResult \<Rightarrow> blockResultColumn list" where
  "getColumns br = br_cs br"

definition getColumnByName :: "blockResult \<Rightarrow> string \<Rightarrow> blockResultColumn" where
  "getColumnByName br columnName =
     (case find (\<lambda>c. c_name c = columnName) (br_cs br) of
        Some c \<Rightarrow> c
      | None \<Rightarrow>
          \<lparr>c_name = columnName, c_isConst = True, c_isTime = False,
           c_valueType = valueTypeString, c_encodedValues = [[]], c_dictValues = []\<rparr>)"

text \<open>Indexing a Go slice or string out of range is a runtime panic.\<close>

definition index :: "'a list \<Rightarrow> nat \<Rightarrow> error + 'a" where
  "index xs i = (if i < length xs then Inr (xs ! i) else Inl IndexOutOfRange)"

definition getValueAtRow ::
  "resultFormatters \<Rightarrow> blockResultColumn \<Rightarrow> blockResult \<Rightarrow> nat \<Rightarrow> error + string" where
  "getValueAtRow fmt c br rowIdx =
     (if c_isConst c then index (c_encodedValues c) 0
      else if c_isTime c then
        (case index (br_timestamps br) rowIdx of
           Inl e \<Rightarrow> Inl e
         | Inr t \<Rightarrow> Inr (formatTimestamp fmt t))
      else
        (case index (c_encodedValues c) rowIdx of
           Inl e \<Rightarrow> Inl e
         | Inr v \<Rightarrow>
             (case c_valueType c of
                valueTypeString \<Rightarrow> Inr v
              | valueTypeDict \<Rightarrow>
                  (case index v 0 of
                     Inl e \<Rightarrow> Inl e
                   | Inr b \<Rightarrow> index (c_dictValues c) (of_char b))
              | t \<Rightarrow> formatEncoded fmt t v)))"

fun collect :: "(error + 'a) list \<Rightarrow> error + 'a list" where
  "collect [] = Inr []"
| "collect (x # xs) =
     (case x of
        Inl e \<Rightarrow> Inl e
      | Inr v \<Rightarrow> (case collect xs of Inl e \<Rightarrow> Inl e | Inr vs \<Rightarrow> Inr (v # vs)))"

definition getValues ::
  "resultFormatters \<Rightarrow> blockResultColumn \<Rightarrow> blockResult \<Rightarrow> error + string list" where
  "getValues fmt c br =
     collect (map (getValueAtRow fmt c br) [0..<length (br_timestamps br)])"

record statsCountEmpty =
  sc_fields :: "string list"
  sc_containsStar :: bool

record statsCountEmptyProcessor =
  scp_sc :: statsCountEmpty
  scp_rowsCount :: "64 word"

text \<open>\<^verbatim>\<open>scp.rowsCount += uint64(n)\<close> and \<^verbatim>\<open>scp.rowsCount++\<close>, on 64 bits.\<close>

definition addRows :: "statsCountEmptyProcessor \<Rightarrow> nat \<Rightarrow> statsCountEmptyProcessor" where
  "addRows scp n = scp\<lparr>scp_rowsCount := scp_rowsCount scp + of_nat n\<rparr>"

text \<open>
  The loop over all columns of \<^verbatim>\<open>count_empty(*)\<close>: each column clears the rows where its
  value is not empty.
\<close>

fun star_loop ::
  "resultFormatters \<Rightarrow> blockResult \<Rightarrow> blockResultColumn list \<Rightarrow> bitmap \<Rightarrow> error + bitmap" where
  "star_loop fmt br [] bm = Inr bm"
| "star_loop fmt br (c # cs) bm =
     (case getValues fmt c br of
        Inl e \<Rightarrow> Inl e
      | Inr values \<Rightarrow>
          (case forEachSetBit bm
                  (\<lambda>idx. case index values idx of Inl e \<Rightarrow> Inl e | Inr v \<Rightarrow> Inr (v = []))
           of
             Inl e \<Rightarrow> Inl e
           | Inr bm \<Rightarrow> star_loop fmt br cs bm))"

text \<open>
  The fast path of \<^verbatim>\<open>updateStatsForAllRows\<close> for a single field. The loops over the
  encoded values count the values that are empty, or that are the index of the empty
  string in the dictionary (\<^verbatim>\<open>slices.Index\<close> gives the first such index).
\<close>

fun countWhere :: "(string \<Rightarrow> error + bool) \<Rightarrow> string list \<Rightarrow> error + nat" where
  "countWhere p [] = Inr 0"
| "countWhere p (v # vs) =
     (case p v of
        Inl e \<Rightarrow> Inl e
      | Inr b \<Rightarrow>
          (case countWhere p vs of
             Inl e \<Rightarrow> Inl e
           | Inr n \<Rightarrow> Inr (if b then Suc n else n)))"

fun slicesIndex :: "string list \<Rightarrow> string \<Rightarrow> nat option" where
  "slicesIndex [] v = None"
| "slicesIndex (x # xs) v =
     (if x = v then Some 0 else map_option Suc (slicesIndex xs v))"

definition allRows_single ::
  "blockResult \<Rightarrow> statsCountEmptyProcessor \<Rightarrow> string \<Rightarrow> error + statsCountEmptyProcessor" where
  "allRows_single br scp field =
     (let c = getColumnByName br field in
      if c_isConst c then
        (case index (c_encodedValues c) 0 of
           Inl e \<Rightarrow> Inl e
         | Inr v \<Rightarrow> if v = [] then Inr (addRows scp (length (br_timestamps br))) else Inr scp)
      else if c_isTime c then Inr scp
      else
        (case c_valueType c of
           valueTypeString \<Rightarrow>
             (case countWhere (\<lambda>v. Inr (v = [])) (c_encodedValues c) of
                Inl e \<Rightarrow> Inl e
              | Inr n \<Rightarrow> Inr (addRows scp n))
         | valueTypeDict \<Rightarrow>
             (case slicesIndex (c_dictValues c) [] of
                None \<Rightarrow> Inr scp
              | Some zeroDictIdx \<Rightarrow>
                  (case countWhere
                          (\<lambda>v. case index v 0 of
                                 Inl e \<Rightarrow> Inl e
                               | Inr b \<Rightarrow> Inr ((of_char b :: nat) = zeroDictIdx))
                          (c_encodedValues c)
                   of
                     Inl e \<Rightarrow> Inl e
                   | Inr n \<Rightarrow> Inr (addRows scp n)))
         | valueTypeUnknown \<Rightarrow> Inl UnknownValueType
         | t \<Rightarrow> Inr scp))"

text \<open>
  The slow path of \<^verbatim>\<open>updateStatsForAllRows\<close>: the loop over the fields, with the bitmap
  as the loop state. A \<^verbatim>\<open>return\<close> inside the loop ends it with the processor as it is
  then; \<^verbatim>\<open>continue\<close> goes to the next field with the bitmap unchanged.
\<close>

fun allRows_slow ::
  "blockResult \<Rightarrow> statsCountEmptyProcessor \<Rightarrow> string list \<Rightarrow> bitmap
     \<Rightarrow> error + statsCountEmptyProcessor" where
  "allRows_slow br scp [] bm = Inr (addRows scp (onesCount bm))"
| "allRows_slow br scp (f # fs) bm =
     (let c = getColumnByName br f in
      if c_isConst c then
        (case index (c_encodedValues c) 0 of
           Inl e \<Rightarrow> Inl e
         | Inr v \<Rightarrow>
             if v = [] then Inr (addRows scp (length (br_timestamps br)))
             else allRows_slow br scp fs bm)
      else if c_isTime c then Inr scp
      else
        (case c_valueType c of
           valueTypeString \<Rightarrow>
             (case forEachSetBit bm
                     (\<lambda>i. case index (c_encodedValues c) i of
                            Inl e \<Rightarrow> Inl e
                          | Inr v \<Rightarrow> Inr (v = []))
              of
                Inl e \<Rightarrow> Inl e
              | Inr bm \<Rightarrow> allRows_slow br scp fs bm)
         | valueTypeDict \<Rightarrow>
             if [] \<notin> set (c_dictValues c) then Inr scp
             else
               (case forEachSetBit bm
                       (\<lambda>i. case index (c_encodedValues c) i of
                              Inl e \<Rightarrow> Inl e
                            | Inr v \<Rightarrow>
                                (case index v 0 of
                                   Inl e \<Rightarrow> Inl e
                                 | Inr dictIdx \<Rightarrow>
                                     (case index (c_dictValues c) (of_char dictIdx) of
                                        Inl e \<Rightarrow> Inl e
                                      | Inr d \<Rightarrow> Inr (d = []))))
                of
                  Inl e \<Rightarrow> Inl e
                | Inr bm \<Rightarrow> allRows_slow br scp fs bm)
         | valueTypeUnknown \<Rightarrow> Inl UnknownValueType
         | t \<Rightarrow> Inr scp))"

text \<open>
  \<^verbatim>\<open>updateStatsForAllRows\<close> returns the change of the state size, which is 0 on every
  path, next to the updated processor.
\<close>

definition updateStatsForAllRows ::
  "resultFormatters \<Rightarrow> statsCountEmptyProcessor \<Rightarrow> blockResult
     \<Rightarrow> error + statsCountEmptyProcessor \<times> int" where
  "updateStatsForAllRows fmt scp br =
     (let fields = sc_fields (scp_sc scp) in
      if sc_containsStar (scp_sc scp) then
        (let bm = getBitmap (length (br_timestamps br));
             bm = setBits bm
         in case star_loop fmt br (getColumns br) bm of
              Inl e \<Rightarrow> Inl e
            | Inr bm \<Rightarrow> Inr (addRows scp (onesCount bm), 0))
      else if length fields = 1 then
        (case allRows_single br scp (fields ! 0) of
           Inl e \<Rightarrow> Inl e
         | Inr scp \<Rightarrow> Inr (scp, 0))
      else
        (let bm = getBitmap (length (br_timestamps br));
             bm = setBits bm
         in case allRows_slow br scp fields bm of
              Inl e \<Rightarrow> Inl e
            | Inr scp \<Rightarrow> Inr (scp, 0)))"

text \<open>
  The loops of \<^verbatim>\<open>updateStatsForRow\<close>: the row counts unless some column (or some listed
  field) has a value at the row that is not empty.
\<close>

fun row_all_empty ::
  "resultFormatters \<Rightarrow> blockResult \<Rightarrow> blockResultColumn list \<Rightarrow> nat \<Rightarrow> error + bool" where
  "row_all_empty fmt br [] rowIdx = Inr True"
| "row_all_empty fmt br (c # cs) rowIdx =
     (case getValueAtRow fmt c br rowIdx of
        Inl e \<Rightarrow> Inl e
      | Inr v \<Rightarrow> if v \<noteq> [] then Inr False else row_all_empty fmt br cs rowIdx)"

definition row_single ::
  "blockResult \<Rightarrow> statsCountEmptyProcessor \<Rightarrow> string \<Rightarrow> nat \<Rightarrow> error + statsCountEmptyProcessor" where
  "row_single br scp field rowIdx =
     (let c = getColumnByName br field in
      if c_isConst c then
        (case index (c_encodedValues c) 0 of
           Inl e \<Rightarrow> Inl e
         | Inr v \<Rightarrow> if v = [] then Inr (addRows scp 1) else Inr scp)
      else if c_isTime c then Inr scp
      else
        (case c_valueType c of
           valueTypeString \<Rightarrow>
             (case index (c_encodedValues c) rowIdx of
                Inl e \<Rightarrow> Inl e
              | Inr v \<Rightarrow> if v = [] then Inr (addRows scp 1) else Inr scp)
         | valueTypeDict \<Rightarrow>
             (case index (c_encodedValues c) rowIdx of
                Inl e \<Rightarrow> Inl e
              | Inr ev \<Rightarrow>
                  (case index ev 0 of
                     Inl e \<Rightarrow> Inl e
                   | Inr dictIdx \<Rightarrow>
                       (case index (c_dictValues c) (of_char dictIdx) of
                          Inl e \<Rightarrow> Inl e
                        | Inr v \<Rightarrow> if v = [] then Inr (addRows scp 1) else Inr scp)))
         | valueTypeUnknown \<Rightarrow> Inl UnknownValueType
         | t \<Rightarrow> Inr scp))"

definition updateStatsForRow ::
  "resultFormatters \<Rightarrow> statsCountEmptyProcessor \<Rightarrow> blockResult \<Rightarrow> nat
     \<Rightarrow> error + statsCountEmptyProcessor \<times> int" where
  "updateStatsForRow fmt scp br rowIdx =
     (let fields = sc_fields (scp_sc scp) in
      if sc_containsStar (scp_sc scp) then
        (case row_all_empty fmt br (getColumns br) rowIdx of
           Inl e \<Rightarrow> Inl e
         | Inr b \<Rightarrow> if b then Inr (addRows scp 1, 0) else Inr (scp, 0))
      else if length fields = 1 then
        (case row_single br scp (fields ! 0) rowIdx of
           Inl e \<Rightarrow> Inl e
         | Inr scp \<Rightarrow> Inr (scp, 0))
      else
        (case row_all_empty fmt br (map (getColumnByName br) fields) rowIdx of
           Inl e \<Rightarrow> Inl e
         | Inr b \<Rightarrow> if b then Inr (addRows scp 1, 0) else Inr (scp, 0)))"

text \<open>
  \<^verbatim>\<open>parseStatsCountEmpty\<close> builds the function from the parsed field names; the parser
  of the names is not among the sources.
\<close>

definition newStatsCountEmpty :: "string list \<Rightarrow> statsCountEmpty" where
  "newStatsCountEmpty names =
     \<lparr>sc_fields = names, sc_containsStar = (''*'' \<in> set names)\<rparr>"

text \<open>
  The count in the words of the spec, for comparison with the code: the number of rows
  in which all the listed fields are empty.
\<close>

definition count_empty_spec ::
  "resultFormatters \<Rightarrow> blockResult \<Rightarrow> string list \<Rightarrow> nat" where
  "count_empty_spec fmt br names =
     length (filter
       (\<lambda>rowIdx. list_all (\<lambda>f. getValueAtRow fmt (getColumnByName br f) br rowIdx = Inr [])
                   names)
       [0..<length (br_timestamps br)])"

section \<open>The contract of a filter and the absent column\<close>

text \<open>
  A filter only clears bits: whenever it returns, the bitmap has the length it had, and
  every row set in it was set before.
\<close>

definition clears_only :: "filter_apply \<Rightarrow> bool" where
  "clears_only f =
     (\<forall>bs bm r. f bs bm = Inr r \<longrightarrow> length r = length bm \<and> setRows r \<subseteq> setRows bm)"

text \<open>The same contract on one pair of bitmaps.\<close>

definition sub_bitmap :: "bitmap \<Rightarrow> bitmap \<Rightarrow> bool" where
  "sub_bitmap r bm = (length r = length bm \<and> setRows r \<subseteq> setRows bm)"

text \<open>
  The absent column in the words of the spec, for comparison with the code: the filter
  acts as if the value of every row were the empty string, that is, as the scan of the
  set rows with the filter's predicate on the empty string.
\<close>

definition absent_column_spec :: "(string \<Rightarrow> bool) \<Rightarrow> bitmap \<Rightarrow> error + bitmap" where
  "absent_column_spec match bm = forEachSetBit bm (\<lambda>idx. Inr (match []))"

section \<open>Canonical string forms\<close>

text \<open>
  Modelled from the spec: the canonical string form of a stored value (values_encoder.go
  is not among the sources): the decimal representation for an integer, the dotted quad
  for an ipv4 address. They instantiate the formatters in the evaluations below.
\<close>

definition digit :: "nat \<Rightarrow> char" where
  "digit d = ''0123456789'' ! d"

function decimal :: "nat \<Rightarrow> string" where
  "decimal n = (if n < 10 then [digit n] else decimal (n div 10) @ [digit (n mod 10)])"
  by pat_completeness auto
termination
  by (relation "measure id") auto

declare decimal.simps [simp del]

definition uintString :: "nat \<Rightarrow> string \<Rightarrow> error + string" where
  "uintString k v =
     (if length v \<noteq> k then Inl UnexpectedLength else Inr (decimal (bigEndian v)))"

definition ipv4String :: "string \<Rightarrow> error + string" where
  "ipv4String v =
     (if length v \<noteq> 4 then Inl UnexpectedLength
      else Inr (decimal (of_char (v ! 0)) @ ''.'' @ decimal (of_char (v ! 1)) @ ''.''
                @ decimal (of_char (v ! 2)) @ ''.'' @ decimal (of_char (v ! 3))))"

section \<open>Concrete parameters used in the evaluations\<close>

text \<open>
  The evaluations run the filters on concrete blocks and need concrete values for the
  parameters. The formatters of integers and ipv4 addresses are the canonical forms
  above; the other parameters are stand-ins that the evaluated paths never call: the
  float64 and timestamp formatters, the number parser, \<^verbatim>\<open>Float64frombits\<close>, the phrase
  matcher, the tokenizer and the typed matchers. The conversion of an unrepresentable
  float64 to uint64 gives \<open>2\<^sup>6\<^sup>3\<close>, as on amd64. The case mappings are those of ASCII.
\<close>

definition example_formatters :: valueFormatters where
  "example_formatters =
     \<lparr>toUint8String = uintString 1,
      toUint16String = uintString 2,
      toUint32String = uintString 4,
      toUint64String = uintString 8,
      toFloat64StringExt = (\<lambda>v. Inl UnexpectedLength),
      toIPv4StringExt = ipv4String,
      toTimestampISO8601StringExt = (\<lambda>v. Inl UnexpectedLength)\<rparr>"

definition example_rangeEnv :: rangeEnv where
  "example_rangeEnv =
     \<lparr>tryParseFloat64 = (\<lambda>s. None),
      float64frombits = (\<lambda>n. NaN),
      unrepresentable = (\<lambda>f. 2 ^ 63)\<rparr>"

definition asciiLower :: "char \<Rightarrow> char" where
  "asciiLower c =
     (if (of_char CHR ''A'' :: nat) \<le> of_char c \<and> (of_char c :: nat) \<le> of_char CHR ''Z''
      then char_of (of_char c + (32 :: nat)) else c)"

definition asciiUpper :: "char \<Rightarrow> char" where
  "asciiUpper c =
     (if (of_char CHR ''a'' :: nat) \<le> of_char c \<and> (of_char c :: nat) \<le> of_char CHR ''z''
      then char_of (of_char c - (32 :: nat)) else c)"

definition never_matcher :: typedMatcher where
  "never_matcher = \<lparr>tm_skip = (\<lambda>bs ch phrase tokens. True),
                    tm_match = (\<lambda>phrase tokens v. Inr False)\<rparr>"

definition example_phraseEnv :: phraseEnv where
  "example_phraseEnv =
     \<lparr>toLower = map asciiLower,
      toUpper = map asciiUpper,
      appendLowercase = map asciiLower,
      matchPhrase = (\<lambda>s phrase. False),
      tokenizeStrings = (\<lambda>a. a),
      matchUint8ByExactValue = never_matcher,
      matchUint16ByExactValue = never_matcher,
      matchUint32ByExactValue = never_matcher,
      matchUint64ByExactValue = never_matcher,
      matchFloat64ByPhrase = never_matcher,
      matchIPv4ByPhrase = never_matcher,
      matchTimestampISO8601ByPhrase = never_matcher\<rparr>"

section \<open>Concrete blocks used in the evaluations\<close>

text \<open>The string column of the fifth end-to-end scenario of the spec.\<close>

definition fruit_block :: blockSearch where
  "fruit_block =
     \<lparr>bs_constColumns = [],
      bs_columnHeaders =
        [\<lparr>ch_name = ''foo'', ch_valueType = valueTypeString, ch_minValue = 0, ch_maxValue = 0,
          ch_valuesDict = []\<rparr>],
      bs_values = [(''foo'', [''alpha'', ''mango'', ''oregano'', ''pear'', ''m''])]\<rparr>"

definition fruit_header :: columnHeader where
  "fruit_header =
     \<lparr>ch_name = ''foo'', ch_valueType = valueTypeString, ch_minValue = 0, ch_maxValue = 0,
      ch_valuesDict = []\<rparr>"

text \<open>Filters on the column \<^verbatim>\<open>foo\<close> of that block, and on a column \<^verbatim>\<open>bar\<close> it lacks.\<close>

definition string_range_a_b :: filterStringRange where
  "string_range_a_b = \<lparr>fsr_fieldName = ''foo'', fsr_minValue = ''a'', fsr_maxValue = ''b''\<rparr>"

definition string_range_m_p :: filterStringRange where
  "string_range_m_p = \<lparr>fsr_fieldName = ''foo'', fsr_minValue = ''m'', fsr_maxValue = ''p''\<rparr>"

definition range_1_2 :: filterRange where
  "range_1_2 = \<lparr>fr_fieldName = ''foo'', fr_minValue = Finite 1, fr_maxValue = Finite 2,
                 fr_stringRepr = ''[1, 2]''\<rparr>"

definition i_absent_empty :: filterAnyCasePhrase where
  "i_absent_empty = \<lparr>fp_fieldName = ''bar'', fp_phrase = []\<rparr>"

definition i_absent_Err :: filterAnyCasePhrase where
  "i_absent_Err = \<lparr>fp_fieldName = ''bar'', fp_phrase = ''Err''\<rparr>"

definition string_range_absent :: filterStringRange where
  "string_range_absent = \<lparr>fsr_fieldName = ''bar'', fsr_minValue = [], fsr_maxValue = ''z''\<rparr>"

definition range_absent :: filterRange where
  "range_absent = \<lparr>fr_fieldName = ''bar'', fr_minValue = Finite 1, fr_maxValue = Finite 2,
                    fr_stringRepr = ''[1, 2]''\<rparr>"

text \<open>A uint8 column holding 1, 5 and 200, and the filter \<^verbatim>\<open>n:range[1.5, 100.9]\<close>.\<close>

definition small_numbers_header :: columnHeader where
  "small_numbers_header =
     \<lparr>ch_name = ''n'', ch_valueType = valueTypeUint8, ch_minValue = 1, ch_maxValue = 200,
      ch_valuesDict = []\<rparr>"

definition small_numbers_block :: blockSearch where
  "small_numbers_block =
     \<lparr>bs_constColumns = [],
      bs_columnHeaders = [small_numbers_header],
      bs_values = [(''n'', [[char_of (1 :: nat)], [char_of (5 :: nat)], [char_of (200 :: nat)]])]\<rparr>"

definition range_1p5_100p9 :: filterRange where
  "range_1p5_100p9 =
     \<lparr>fr_fieldName = ''n'', fr_minValue = Finite (3 / 2), fr_maxValue = Finite (1009 / 10),
      fr_stringRepr = ''[1.5, 100.9]''\<rparr>"

text \<open>
  A uint64 column holding \<open>2\<^sup>6\<^sup>4 - 1\<close> and \<open>2\<^sup>6\<^sup>4 - 2\<close>, and the filter
  \<^verbatim>\<open>n:range[36893488147419103232, 18446744073709555712]\<close>, whose bounds \<open>2\<^sup>6\<^sup>5\<close> and
  \<open>2\<^sup>6\<^sup>4 + 4096\<close> are float64 values in reversed order.
\<close>

definition max_uint64_bytes :: string where
  "max_uint64_bytes =
     [char_of (255 :: nat), char_of (255 :: nat), char_of (255 :: nat), char_of (255 :: nat),
      char_of (255 :: nat), char_of (255 :: nat), char_of (255 :: nat), char_of (255 :: nat)]"

definition below_max_uint64_bytes :: string where
  "below_max_uint64_bytes =
     [char_of (255 :: nat), char_of (255 :: nat), char_of (255 :: nat), char_of (255 :: nat),
      char_of (255 :: nat), char_of (255 :: nat), char_of (255 :: nat), char_of (254 :: nat)]"

definition max_uint64_header :: columnHeader where
  "max_uint64_header =
     \<lparr>ch_name = ''n'', ch_valueType = valueTypeUint64, ch_minValue = - 2, ch_maxValue = - 1,
      ch_valuesDict = []\<rparr>"

definition max_uint64_block :: blockSearch where
  "max_uint64_block =
     \<lparr>bs_constColumns = [],
      bs_columnHeaders = [max_uint64_header],
      bs_values = [(''n'', [max_uint64_bytes, below_max_uint64_bytes])]\<rparr>"

definition range_reversed :: filterRange where
  "range_reversed =
     \<lparr>fr_fieldName = ''n'', fr_minValue = Finite (2 ^ 65), fr_maxValue = Finite (2 ^ 64 + 4096),
      fr_stringRepr = ''[36893488147419103232, 18446744073709555712]''\<rparr>"

definition range_below_zero :: filterRange where
  "range_below_zero =
     \<lparr>fr_fieldName = ''n'', fr_minValue = Finite (- 5), fr_maxValue = Finite (- 1),
      fr_stringRepr = ''[-5, -1]''\<rparr>"

text \<open>
  A block result of two rows with a constant column \<^verbatim>\<open>a\<close> holding \<^verbatim>\<open>x\<close> and a string
  column \<^verbatim>\<open>b\<close> that is empty in both rows; and the same with \<^verbatim>\<open>a\<close> constantly empty
  and \<^verbatim>\<open>b\<close> holding \<^verbatim>\<open>y\<close> and \<^verbatim>\<open>z\<close>. The processor is that of
  \<^verbatim>\<open>count_empty(a, b)\<close> before its first update.
\<close>

definition const_x_block :: blockResult where
  "const_x_block =
     \<lparr>br_timestamps = [1, 2],
      br_cs =
        [\<lparr>c_name = ''a'', c_isConst = True, c_isTime = False, c_valueType = valueTypeString,
          c_encodedValues = [''x''], c_dictValues = []\<rparr>,
         \<lparr>c_name = ''b'', c_isConst = False, c_isTime = False, c_valueType = valueTypeString,
          c_encodedValues = [[], []], c_dictValues = []\<rparr>]\<rparr>"

definition const_empty_block :: blockResult where
  "const_empty_block =
     \<lparr>br_timestamps = [1, 2],
      br_cs =
        [\<lparr>c_name = ''a'', c_isConst = True, c_isTime = False, c_valueType = valueTypeString,
          c_encodedValues = [[]], c_dictValues = []\<rparr>,
         \<lparr>c_name = ''b'', c_isConst = False, c_isTime = False, c_valueType = valueTypeString,
          c_encodedValues = [''y'', ''z''], c_dictValues = []\<rparr>]\<rparr>"

definition count_empty_a_b :: statsCountEmptyProcessor where
  "count_empty_a_b = \<lparr>scp_sc = newStatsCountEmpty [''a'', ''b''], scp_rowsCount = 0\<rparr>"

definition example_resultFormatters :: resultFormatters where
  "example_resultFormatters =
     \<lparr>formatTimestamp = (\<lambda>t. ''t''), formatEncoded = (\<lambda>t v. Inl UnexpectedLength)\<rparr>"

text \<open>
  An ipv4 column holding the addresses 9.1.2.3 and 9.1.2.4, the filters
  \<^verbatim>\<open>ip:string_range("9.0", "9.9")\<close> and \<^verbatim>\<open>ip:string_range("8", "9.9")\<close>, and a numeric
  range on the same column.
\<close>

definition ip_9_1_2_3 :: string where
  "ip_9_1_2_3 = [char_of (9 :: nat), char_of (1 :: nat), char_of (2 :: nat), char_of (3 :: nat)]"

definition ip_9_1_2_4 :: string where
  "ip_9_1_2_4 = [char_of (9 :: nat), char_of (1 :: nat), char_of (2 :: nat), char_of (4 :: nat)]"

definition ipv4_block :: blockSearch where
  "ipv4_block =
     \<lparr>bs_constColumns = [],
      bs_columnHeaders =
        [\<lparr>ch_name = ''ip'', ch_valueType = valueTypeIPv4, ch_minValue = 151060995,
          ch_maxValue = 151060996, ch_valuesDict = []\<rparr>],
      bs_values = [(''ip'', [ip_9_1_2_3, ip_9_1_2_4])]\<rparr>"

definition string_range_9 :: filterStringRange where
  "string_range_9 = \<lparr>fsr_fieldName = ''ip'', fsr_minValue = ''9.0'', fsr_maxValue = ''9.9''\<rparr>"

definition string_range_8 :: filterStringRange where
  "string_range_8 = \<lparr>fsr_fieldName = ''ip'', fsr_minValue = ''8'', fsr_maxValue = ''9.9''\<rparr>"

definition range_ip :: filterRange where
  "range_ip = \<lparr>fr_fieldName = ''ip'', fr_minValue = NegInf, fr_maxValue = PosInf,
                fr_stringRepr = ''[-inf, inf]''\<rparr>"

section \<open>Properties of bitmaps\<close>

lemma length_keepRows [simp]: "length (keepRows P bm) = length bm"
  by (simp add: keepRows_def)

lemma nth_keepRows [simp]: "i < length bm \<Longrightarrow> keepRows P bm ! i = (bm ! i \<and> i \<in> P)"
  by (simp add: keepRows_def)

lemma getBitmap_keepRows: "getBitmap (bitsLen bm) = keepRows {} bm"
  by (intro nth_equalityI) (simp_all add: getBitmap_def bitsLen_def)

lemma keepRows_keepRows: "keepRows P (keepRows Q bm) = keepRows (P \<inter> Q) bm"
  by (intro nth_equalityI) auto

lemma andNot_keepRows: "andNot bm (keepRows Q bm) = Inr (keepRows (- Q) bm)"
  unfolding andNot_def by (auto intro!: nth_equalityI)

lemma andNot_keepRows2: "andNot (keepRows P bm) (keepRows Q bm) = Inr (keepRows (P - Q) bm)"
  unfolding andNot_def by (auto intro!: nth_equalityI)

lemma or_bm_keepRows: "or_bm (keepRows P bm) (keepRows Q bm) = Inr (keepRows (P \<union> Q) bm)"
  unfolding or_bm_def by (auto intro!: nth_equalityI)

lemma isZero_keepRows: "isZero (keepRows P bm) \<longleftrightarrow> (\<forall>i<length bm. bm ! i \<longrightarrow> i \<notin> P)"
  by (auto simp: isZero_def list_all_length)

lemma keepRows_cong: "(\<And>i. i < length bm \<Longrightarrow> bm ! i \<Longrightarrow> (i \<in> P) = (i \<in> Q)) \<Longrightarrow> keepRows P bm = keepRows Q bm"
  by (intro nth_equalityI) auto

lemma keepRows_UNIV: "keepRows UNIV bm = bm"
  by (intro nth_equalityI) auto

lemma setRows_keepRows: "setRows (keepRows P bm) = setRows bm \<inter> P"
  by (auto simp: setRows_def)

lemma filterOr_loop_inter:
  "list_all2 (\<lambda>f P. acts_as_inter f bs (length bm) P) filters Ps \<Longrightarrow>
   filterOr_loop filters bs bm (keepRows Q bm) = Inr (keepRows (Q \<union> \<Union>(set Ps)) bm)"
proof (induction filters Ps arbitrary: Q rule: list_all2_induct)
  case Nil
  then show ?case by simp
next
  case (Cons f filters P Ps)
  have f: "\<And>x. length x = length bm \<Longrightarrow> f bs x = Inr (keepRows P x)"
    using Cons.hyps(1) by (simp add: acts_as_inter_def)
  show ?case
  proof (cases "isZero (keepRows (- Q) bm)")
    case True
    then have "filterOr_loop (f # filters) bs bm (keepRows Q bm) = Inr (keepRows Q bm)"
      by (simp add: copyFrom_def andNot_keepRows)
    also from True have "(Inr (keepRows Q bm) :: error + bitmap) = Inr (keepRows (Q \<union> \<Union>(set (P # Ps))) bm)"
      by (simp only: sum.inject, intro keepRows_cong) (auto simp: isZero_keepRows)
    finally show ?thesis .
  next
    case False
    have "Q \<union> (P \<inter> - Q) \<union> \<Union>(set Ps) = Q \<union> \<Union>(set (P # Ps))" by auto
    with False show ?thesis
      by (simp add: copyFrom_def andNot_keepRows f keepRows_keepRows or_bm_keepRows Cons.IH)
  qed
qed

lemma or_spec_loop_inter:
  "list_all2 (\<lambda>f P. acts_as_inter f bs (length bm) P) filters Ps \<Longrightarrow>
   or_spec_loop filters bs bm (keepRows Q bm) = Inr (keepRows (Q \<union> \<Union>(set Ps)) bm)"
proof (induction filters Ps arbitrary: Q rule: list_all2_induct)
  case Nil
  then show ?case by simp
next
  case (Cons f filters P Ps)
  have f: "\<And>x. length x = length bm \<Longrightarrow> f bs x = Inr (keepRows P x)"
    using Cons.hyps(1) by (simp add: acts_as_inter_def)
  have "Q \<union> P \<union> \<Union>(set Ps) = Q \<union> \<Union>(set (P # Ps))" by auto
  then show ?case
    by (simp add: copyFrom_def f or_bm_keepRows Cons.IH)
qed

lemma setRows_map2_andNot:
  "length t = length bm \<Longrightarrow> setRows (map2 (\<lambda>a b. a \<and> \<not> b) bm t) = setRows bm - setRows t"
  by (auto simp: setRows_def)


lemma forEachSetBit_from_eq:
  "(\<And>j. j < length bm \<Longrightarrow> bm ! j \<Longrightarrow> f (i + j) = Inr (p (i + j))) \<Longrightarrow>
   forEachSetBit_from i bm f = Inr (map (\<lambda>j. bm ! j \<and> p (i + j)) [0..<length bm])"
proof (induction bm arbitrary: i)
  case Nil
  then show ?case by simp
next
  case (Cons b bm)
  have tl: "forEachSetBit_from (Suc i) bm f = Inr (map (\<lambda>j. bm ! j \<and> p (Suc i + j)) [0..<length bm])"
    by (rule Cons.IH) (use Cons.prems [of "Suc j" for j] in simp)
  have hd: "b \<Longrightarrow> f i = Inr (p i)"
    using Cons.prems [of 0] by simp
  have l: "map (\<lambda>j. (b # bm) ! j \<and> p (i + j)) [0..<length (b # bm)]
     = (b \<and> p i) # map (\<lambda>j. bm ! j \<and> p (Suc i + j)) [0..<length bm]"
    by (simp add: upt_conv_Cons map_Suc_upt [symmetric] del: upt_Suc)
  show ?case
    unfolding l using tl hd by (cases b) simp_all
qed

lemma forEachSetBit_eq:
  "(\<And>j. j < length bm \<Longrightarrow> bm ! j \<Longrightarrow> f j = Inr (p j)) \<Longrightarrow>
   forEachSetBit bm f = Inr (keepRows {j. p j} bm)"
  unfolding forEachSetBit_def keepRows_def
  using forEachSetBit_from_eq [of bm f 0 p] by simp

lemma forEachSetBit_from_clears:
  "forEachSetBit_from i bm f = Inr r \<Longrightarrow> length r = length bm \<and> (\<forall>j<length bm. r ! j \<longrightarrow> bm ! j)"
proof (induction bm arbitrary: i r)
  case Nil
  then show ?case by simp
next
  case (Cons b bm)
  then show ?case
    by (auto split: if_splits sum.splits simp: nth_Cons split: nat.splits)
qed

lemma visitValues_eq:
  assumes "\<And>j. j < length bm \<Longrightarrow> bm ! j \<Longrightarrow>
     j < length (getValuesForColumn bs ch) \<and> f (getValuesForColumn bs ch ! j) = Inr (p (getValuesForColumn bs ch ! j))"
  shows "visitValues bs ch bm f = Inr (keepRows {j. p (getValuesForColumn bs ch ! j)} bm)"
  unfolding visitValues_def Let_def
  by (rule forEachSetBit_eq) (use assms in auto)

lemma setRows_code: "setRows bm = set (filter (\<lambda>i. bm ! i) [0..<length bm])"
  by (auto simp: setRows_def)

section \<open>The order of strings\<close>

lemma string_less_iff: "string_less a b \<longleftrightarrow> a < b"
proof (induction a b rule: string_less.induct)
  case (4 a as b bs)
  then show ?case
    by (auto simp: less_char_def dest: of_char_eq_iff [THEN iffD1])
qed simp_all

lemma string_ge_iff: "string_ge a b \<longleftrightarrow> b \<le> a"
  by (simp add: string_ge_def string_less_iff not_less)

lemma string_greater_iff: "string_greater a b \<longleftrightarrow> b < a"
  by (simp add: string_greater_def string_less_iff)

section \<open>filterStringRange\<close>

lemma filterStringRange_apply_string_column:
  assumes c: "getConstColumnValue bs (fsr_fieldName fr) = []"
    and h: "getColumnHeader bs (fsr_fieldName fr) = Some ch"
    and t: "ch_valueType ch = valueTypeString"
    and v: "\<And>j. j < length bm \<Longrightarrow> bm ! j \<Longrightarrow> j < length (getValuesForColumn bs ch)"
  shows "filterStringRange_apply fmt fr bs bm =
     Inr (keepRows {j. fsr_minValue fr \<le> getValuesForColumn bs ch ! j
                      \<and> getValuesForColumn bs ch ! j < fsr_maxValue fr} bm)"
proof (cases "string_greater (fsr_minValue fr) (fsr_maxValue fr)")
  case True
  then have e: "{j. fsr_minValue fr \<le> getValuesForColumn bs ch ! j
                \<and> getValuesForColumn bs ch ! j < fsr_maxValue fr} = {}"
    by (auto simp: string_greater_iff)
  have r: "resetBits bm = keepRows {} bm"
    by (intro nth_equalityI) (simp_all add: resetBits_def)
  show ?thesis
    unfolding e using True by (simp add: filterStringRange_apply_def r)
next
  case False
  have "matchStringByStringRange bs ch bm (fsr_minValue fr) (fsr_maxValue fr) =
     Inr (keepRows {j. matchStringRange (getValuesForColumn bs ch ! j) (fsr_minValue fr) (fsr_maxValue fr)} bm)"
    unfolding matchStringByStringRange_def
    by (rule visitValues_eq) (use v in simp)
  then show ?thesis
    using False c h t
    by (simp add: filterStringRange_apply_def matchStringRange_def string_ge_iff string_less_iff)
qed

text \<open>
  Claim C9. \<^verbatim>\<open>matchStringRange(s, minValue, maxValue)\<close> holds iff \<open>minValue \<le> s\<close> and
  \<open>s < maxValue\<close> in the lexicographic order of the bytes. On a string column (a header
  of type string, no constant value, a value for every row whose bit is set) the filter
  keeps exactly the set rows whose value lies in the half-open range; the filter
  \<^verbatim>\<open>string_range("m", "p")\<close> over the values alpha, mango, oregano, pear, m keeps the
  rows 1, 2 and 4.
\<close>

theorem C9_string_range:
  "(matchStringRange s minValue maxValue \<longleftrightarrow> minValue \<le> s \<and> s < maxValue)
   \<and> (getConstColumnValue bs (fsr_fieldName fr) = []
        \<and> getColumnHeader bs (fsr_fieldName fr) = Some ch
        \<and> ch_valueType ch = valueTypeString
        \<and> (\<forall>j<length bm. bm ! j \<longrightarrow> j < length (getValuesForColumn bs ch))
      \<longrightarrow> filterStringRange_apply fmt fr bs bm =
            Inr (keepRows {j. fsr_minValue fr \<le> getValuesForColumn bs ch ! j
                             \<and> getValuesForColumn bs ch ! j < fsr_maxValue fr} bm))
   \<and> (\<exists>r. filterStringRange_apply fmt string_range_m_p fruit_block [True, True, True, True, True]
              = Inr r \<and> setRows r = {1, 2, 4})"
proof (intro conjI impI)
  show "matchStringRange s minValue maxValue \<longleftrightarrow> minValue \<le> s \<and> s < maxValue"
    by (simp add: matchStringRange_def string_ge_iff string_less_iff)
next
  assume "getConstColumnValue bs (fsr_fieldName fr) = []
        \<and> getColumnHeader bs (fsr_fieldName fr) = Some ch
        \<and> ch_valueType ch = valueTypeString
        \<and> (\<forall>j<length bm. bm ! j \<longrightarrow> j < length (getValuesForColumn bs ch))"
  then show "filterStringRange_apply fmt fr bs bm =
            Inr (keepRows {j. fsr_minValue fr \<le> getValuesForColumn bs ch ! j
                             \<and> getValuesForColumn bs ch ! j < fsr_maxValue fr} bm)"
    by (intro filterStringRange_apply_string_column) simp_all
next
  have "filterStringRange_apply fmt string_range_m_p fruit_block [True, True, True, True, True]
      = Inr [False, True, True, False, True]"
    by (simp add: filterStringRange_apply_def fruit_block_def string_range_m_p_def
        string_greater_def getConstColumnValue_def getColumnHeader_def
        matchStringByStringRange_def visitValues_def getValuesForColumn_def forEachSetBit_def
        matchStringRange_def string_ge_def)
  moreover have "setRows [False, True, True, False, True] = {1, 2, 4}"
    by (simp add: setRows_code upt_rec eval_nat_numeral)
  ultimately show "\<exists>r. filterStringRange_apply fmt string_range_m_p fruit_block
      [True, True, True, True, True] = Inr r \<and> setRows r = {1, 2, 4}"
    by simp
qed

theorem C9_string_range_witness:
  "matchStringRange ''mango'' ''m'' ''p'' \<and> \<not> matchStringRange ''pear'' ''m'' ''p''
   \<and> matchStringRange ''m'' ''m'' ''p''
   \<and> filterStringRange_apply example_formatters string_range_m_p fruit_block
        [True, True, True, True, True]
      = Inr [False, True, True, False, True]"
proof -
  let ?fmt = example_formatters
  let ?ch = "\<lparr>ch_name = ''foo'', ch_valueType = valueTypeString, ch_minValue = 0, ch_maxValue = 0,
          ch_valuesDict = []\<rparr>"
  let ?bm = "[True, True, True, True, True]"
  note inst = C9_string_range [where bs = fruit_block and fr = string_range_m_p and ch = ?ch
      and bm = ?bm and fmt = ?fmt]
  have v: "getValuesForColumn fruit_block ?ch = [''alpha'', ''mango'', ''oregano'', ''pear'', ''m'']"
    by (simp add: getValuesForColumn_def fruit_block_def)
  have pre: "getConstColumnValue fruit_block (fsr_fieldName string_range_m_p) = []
        \<and> getColumnHeader fruit_block (fsr_fieldName string_range_m_p) = Some ?ch
        \<and> ch_valueType ?ch = valueTypeString
        \<and> (\<forall>j<length ?bm. ?bm ! j \<longrightarrow> j < length (getValuesForColumn fruit_block ?ch))"
    by (simp add: v) (simp add: getConstColumnValue_def getColumnHeader_def fruit_block_def
        string_range_m_p_def)
  have k: "keepRows {j. fsr_minValue string_range_m_p \<le> getValuesForColumn fruit_block ?ch ! j
                \<and> getValuesForColumn fruit_block ?ch ! j < fsr_maxValue string_range_m_p} ?bm
      = [False, True, True, False, True]"
    by (simp add: v keepRows_def string_range_m_p_def upt_rec less_char_def less_eq_char_def)
  have m: "matchStringRange ''mango'' ''m'' ''p''" "\<not> matchStringRange ''pear'' ''m'' ''p''"
      "matchStringRange ''m'' ''m'' ''p''"
    using inst [where s = "''mango''" and minValue = "''m''" and maxValue = "''p''"]
      inst [where s = "''pear''" and minValue = "''m''" and maxValue = "''p''"]
      inst [where s = "''m''" and minValue = "''m''" and maxValue = "''p''"]
    by (simp_all add: less_char_def less_eq_char_def)
  from inst [where s = "''m''" and minValue = "''m''" and maxValue = "''p''"] pre
  have "filterStringRange_apply ?fmt string_range_m_p fruit_block ?bm =
      Inr (keepRows {j. fsr_minValue string_range_m_p \<le> getValuesForColumn fruit_block ?ch ! j
                \<and> getValuesForColumn fruit_block ?ch ! j < fsr_maxValue string_range_m_p} ?bm)"
    by blast
  with k m show ?thesis by simp
qed

section \<open>Filters only clear bits\<close>

lemma sub_bitmap_nth: "sub_bitmap r bm \<longleftrightarrow> length r = length bm \<and> (\<forall>j<length bm. r ! j \<longrightarrow> bm ! j)"
  by (auto simp: sub_bitmap_def setRows_def)

lemma sub_bitmap_refl [simp]: "sub_bitmap bm bm"
  by (simp add: sub_bitmap_def)

lemma sub_bitmap_resetBits [simp]: "sub_bitmap (resetBits bm) bm"
  by (simp add: sub_bitmap_nth resetBits_def)

lemma sub_bitmap_trans: "sub_bitmap a b \<Longrightarrow> sub_bitmap b c \<Longrightarrow> sub_bitmap a c"
  by (auto simp: sub_bitmap_def)

lemma resetBits_keepRows: "resetBits bm = keepRows {} bm"
  by (intro nth_equalityI) (simp_all add: resetBits_def)

lemma forEachSetBit_const: "forEachSetBit bm (\<lambda>idx. Inr c) = Inr (if c then bm else resetBits bm)"
proof -
  have "forEachSetBit bm (\<lambda>idx. Inr c) = Inr (keepRows {j. c} bm)"
    by (rule forEachSetBit_eq) simp
  then show ?thesis
    by (simp add: keepRows_UNIV resetBits_keepRows)
qed

lemma forEachSetBit_clears: "forEachSetBit bm f = Inr r \<Longrightarrow> sub_bitmap r bm"
  unfolding forEachSetBit_def sub_bitmap_nth by (rule forEachSetBit_from_clears)

lemma visitValues_clears: "visitValues bs ch bm f = Inr r \<Longrightarrow> sub_bitmap r bm"
  unfolding visitValues_def Let_def by (rule forEachSetBit_clears)

lemma matchEncodedValuesDict_clears: "matchEncodedValuesDict bs ch bm e = Inr r \<Longrightarrow> sub_bitmap r bm"
  unfolding matchEncodedValuesDict_def by (rule visitValues_clears)

lemma matchFormattedByStringRange_clears:
  "matchFormattedByStringRange g bs ch bm a b = Inr r \<Longrightarrow> sub_bitmap r bm"
  unfolding matchFormattedByStringRange_def by (rule visitValues_clears)

lemma typedScan_clears: "typedScan tm bs ch bm p t = Inr r \<Longrightarrow> sub_bitmap r bm"
  by (auto simp: typedScan_def split: if_splits dest: visitValues_clears)

lemmas stringRange_matchers =
  matchStringByStringRange_def matchValuesDictByStringRange_def matchUint8ByStringRange_def
  matchUint16ByStringRange_def matchUint32ByStringRange_def matchUint64ByStringRange_def
  matchFloat64ByStringRange_def matchIPv4ByStringRange_def matchTimestampISO8601ByStringRange_def

lemmas clears_dest =
  visitValues_clears matchEncodedValuesDict_clears matchFormattedByStringRange_clears typedScan_clears

lemma filterStringRange_apply_clears:
  "filterStringRange_apply fmt fr bs bm = Inr r \<Longrightarrow> sub_bitmap r bm"
  unfolding filterStringRange_apply_def Let_def
  by (auto simp: stringRange_matchers split: if_splits option.splits valueType.splits
      dest: clears_dest)

lemmas range_matchers =
  matchStringByRange_def matchValuesDictByRange_def matchUint8ByRange_def
  matchUint16ByRange_def matchUint32ByRange_def matchUint64ByRange_def matchFloat64ByRange_def

lemma filterRange_apply_clears:
  "filterRange_apply env fr bs bm = Inr r \<Longrightarrow> sub_bitmap r bm"
  unfolding filterRange_apply_def Let_def
  by (auto simp: range_matchers split: if_splits option.splits valueType.splits prod.splits
      dest: clears_dest)

lemma filterAnyCasePhrase_apply_clears:
  "filterAnyCasePhrase_apply env fp bs bm = Inr r \<Longrightarrow> sub_bitmap r bm"
  unfolding filterAnyCasePhrase_apply_def Let_def
  by (auto simp: matchStringByAnyCasePhrase_def matchValuesDictByAnyCasePhrase_def
      split: if_splits option.splits valueType.splits
      dest: clears_dest)

lemma andNot_clears: "andNot bm x = Inr r \<Longrightarrow> sub_bitmap r bm"
  by (auto simp: andNot_def sub_bitmap_nth split: if_splits)

lemma filterNot_apply_clears: "filterNot_apply f bs bm = Inr r \<Longrightarrow> sub_bitmap r bm"
  by (auto simp: filterNot_apply_def split: sum.splits dest: andNot_clears)

lemma or_bm_clears:
  "or_bm a b = Inr r \<Longrightarrow> sub_bitmap a bm \<Longrightarrow> sub_bitmap b bm \<Longrightarrow> sub_bitmap r bm"
  by (auto simp: or_bm_def sub_bitmap_nth split: if_splits)

lemma clears_only_iff: "clears_only f \<longleftrightarrow> (\<forall>bs bm r. f bs bm = Inr r \<longrightarrow> sub_bitmap r bm)"
  by (simp add: clears_only_def sub_bitmap_def)

lemma filterOr_loop_clears:
  "list_all clears_only filters \<Longrightarrow> sub_bitmap acc bm \<Longrightarrow>
   filterOr_loop filters bs bm acc = Inr r \<Longrightarrow> sub_bitmap r bm"
proof (induction filters arbitrary: acc)
  case Nil
  then show ?case by simp
next
  case (Cons f filters)
  from Cons.prems(1) have "clears_only f" and fs: "list_all clears_only filters"
    by simp_all
  then have f: "\<And>x y. f bs x = Inr y \<Longrightarrow> sub_bitmap y x"
    by (simp add: clears_only_iff)
  from Cons.prems(3) obtain t where t: "andNot bm acc = Inr t"
    by (auto simp: copyFrom_def split: sum.splits)
  show ?case
  proof (cases "isZero t")
    case True
    with Cons.prems t show ?thesis by (simp add: copyFrom_def)
  next
    case False
    with Cons.prems(3) t obtain t' acc' where
      t': "f bs t = Inr t'" and acc': "or_bm acc t' = Inr acc'"
      and r: "filterOr_loop filters bs bm acc' = Inr r"
      by (auto simp: copyFrom_def split: sum.splits)
    have "sub_bitmap t' bm"
      using f [OF t'] andNot_clears [OF t] by (rule sub_bitmap_trans)
    with acc' Cons.prems(2) have "sub_bitmap acc' bm"
      by (rule or_bm_clears)
    from fs this r show ?thesis by (rule Cons.IH)
  qed
qed

lemma filterOr_apply_clears:
  "list_all clears_only filters \<Longrightarrow> filterOr_apply filters bs bm = Inr r \<Longrightarrow> sub_bitmap r bm"
proof -
  assume a: "list_all clears_only filters" and b: "filterOr_apply filters bs bm = Inr r"
  have z: "sub_bitmap (getBitmap (bitsLen bm)) bm"
    by (simp add: sub_bitmap_nth getBitmap_def bitsLen_def)
  from b have "filterOr_loop filters bs bm (getBitmap (bitsLen bm)) = Inr r"
    by (auto simp: filterOr_apply_def copyFrom_def split: sum.splits)
  with a z show ?thesis by (rule filterOr_loop_clears)
qed

text \<open>
  Claim C1. On every block and every bitmap, each of the leaf filters filterRange,
  filterStringRange and filterAnyCasePhrase returns, whenever it returns (it panics on
  a corrupt block), a bitmap of the same length whose set rows are among the set rows
  of its input: bits are cleared, never set. \<^verbatim>\<open>filterNot.apply\<close> has this property
  when its child has it, and \<^verbatim>\<open>filterOr.apply\<close> has it when all its children have it.
\<close>

theorem C1_filters_clear_only:
  "clears_only (filterRange_apply renv fr)
   \<and> clears_only (filterStringRange_apply fmt fsr)
   \<and> clears_only (filterAnyCasePhrase_apply penv fp)
   \<and> (clears_only f \<longrightarrow> clears_only (filterNot_apply f))
   \<and> (list_all clears_only filters \<longrightarrow> clears_only (filterOr_apply filters))"
  by (auto simp: clears_only_iff
      dest: filterRange_apply_clears filterStringRange_apply_clears
        filterAnyCasePhrase_apply_clears filterNot_apply_clears filterOr_apply_clears)


text \<open>Runs of the filters on the block of the fifth scenario.\<close>

lemmas run_defs =
  fruit_block_def string_range_m_p_def range_1_2_def i_absent_empty_def
  example_formatters_def example_rangeEnv_def example_phraseEnv_def
  filterStringRange_apply_def filterRange_apply_def filterAnyCasePhrase_apply_def
  getConstColumnValue_def getColumnHeader_def getValuesForColumn_def
  visitValues_def forEachSetBit_def resetBits_def
  matchStringByStringRange_def matchStringRange_def string_ge_def string_greater_def
  matchStringByRange_def matchRange_def float64_greater_def
  getPhraseLowercase_def getTokens_def

lemma run1: "filterStringRange_apply example_formatters string_range_m_p fruit_block
    [True, True, True, True, True] = Inr [False, True, True, False, True]"
  by (simp add: run_defs)

lemma run2: "filterRange_apply example_rangeEnv range_1_2 fruit_block
    [True, True, True, True, True] = Inr [False, False, False, False, False]"
  by (simp add: run_defs)

lemma run3: "filterAnyCasePhrase_apply example_phraseEnv i_absent_empty fruit_block
    [True, False, True, False, True] = Inr [True, False, True, False, True]"
  by (simp add: run_defs)

lemma run4: "filterNot_apply (filterStringRange_apply example_formatters string_range_m_p) fruit_block
    [True, True, True, True, True] = Inr [True, False, False, True, False]"
  by (simp add: filterNot_apply_def copyFrom_def getBitmap_def bitsLen_def run1 andNot_def)

lemma run5: "filterOr_apply [filterRange_apply example_rangeEnv range_1_2,
      filterStringRange_apply example_formatters string_range_m_p] fruit_block
    [True, True, True, True, True] = Inr [False, True, True, False, True]"
  by (simp add: filterOr_apply_def copyFrom_def getBitmap_def bitsLen_def run1 run2 andNot_def
      or_bm_def isZero_def)

theorem C1_filters_clear_only_witness:
  "filterRange_apply example_rangeEnv range_1_2 fruit_block [True, True, True, True, True]
     = Inr [False, False, False, False, False]
   \<and> setRows [False, False, False, False, False] \<subseteq> setRows [True, True, True, True, True]
   \<and> filterStringRange_apply example_formatters string_range_m_p fruit_block
       [True, True, True, True, True] = Inr [False, True, True, False, True]
   \<and> setRows [False, True, True, False, True] \<subseteq> setRows [True, True, True, True, True]
   \<and> filterAnyCasePhrase_apply example_phraseEnv i_absent_empty fruit_block
       [True, False, True, False, True] = Inr [True, False, True, False, True]
   \<and> setRows [True, False, True, False, True] \<subseteq> setRows [True, False, True, False, True]
   \<and> clears_only (filterStringRange_apply example_formatters string_range_m_p)
   \<and> filterNot_apply (filterStringRange_apply example_formatters string_range_m_p) fruit_block
       [True, True, True, True, True] = Inr [True, False, False, True, False]
   \<and> setRows [True, False, False, True, False] \<subseteq> setRows [True, True, True, True, True]
   \<and> list_all clears_only [filterRange_apply example_rangeEnv range_1_2,
        filterStringRange_apply example_formatters string_range_m_p]
   \<and> filterOr_apply [filterRange_apply example_rangeEnv range_1_2,
        filterStringRange_apply example_formatters string_range_m_p] fruit_block
       [True, True, True, True, True] = Inr [False, True, True, False, True]"
proof -
  let ?fr = "filterRange_apply example_rangeEnv range_1_2"
  let ?fs = "filterStringRange_apply example_formatters string_range_m_p"
  let ?fp = "filterAnyCasePhrase_apply example_phraseEnv i_absent_empty"
  note c = C1_filters_clear_only [of example_rangeEnv range_1_2 example_formatters
      string_range_m_p example_phraseEnv i_absent_empty ?fs "[?fr, ?fs]"]
  from c have cr: "clears_only ?fr" and cs: "clears_only ?fs" and cp: "clears_only ?fp"
    by blast+
  from c cs have cn: "clears_only (filterNot_apply ?fs)" by blast
  from c cr cs have co: "clears_only (filterOr_apply [?fr, ?fs])" by simp
  have s1: "setRows [False, False, False, False, False] \<subseteq> setRows [True, True, True, True, True]"
    using cr run2 unfolding clears_only_def by blast
  have s2: "setRows [False, True, True, False, True] \<subseteq> setRows [True, True, True, True, True]"
    using cs run1 unfolding clears_only_def by blast
  have s3: "setRows [True, False, True, False, True] \<subseteq> setRows [True, False, True, False, True]"
    using cp run3 unfolding clears_only_def by blast
  have s4: "setRows [True, False, False, True, False] \<subseteq> setRows [True, True, True, True, True]"
    using cn run4 unfolding clears_only_def by blast
  from run1 run2 run3 run4 run5 s1 s2 s3 s4 cr cs show ?thesis by simp
qed

section \<open>The absent column\<close>

text \<open>
  Claim C4. When the block has neither a constant value nor a header for the field of
  the filter, each of the three filters returns the bitmap that the scan of the set rows
  with its predicate on the empty string returns. filterAnyCasePhrase keeps the bitmap
  when its lowercased phrase is empty and clears it otherwise (in terms of the phrase
  itself when \<^verbatim>\<open>strings.ToLower\<close> maps only the empty string to the empty string);
  filterStringRange keeps it when minValue is at most the empty string and the empty
  string is below maxValue, and clears it otherwise; filterRange clears it, which is the
  scan on the empty string when the empty string does not parse as a number.
\<close>

theorem C4_absent_column:
  "(getConstColumnValue bs (fp_fieldName fp) = [] \<and> getColumnHeader bs (fp_fieldName fp) = None \<longrightarrow>
      filterAnyCasePhrase_apply penv fp bs bm
        = absent_column_spec (\<lambda>v. matchAnyCasePhrase penv v (getPhraseLowercase penv fp)) bm
      \<and> filterAnyCasePhrase_apply penv fp bs bm
        = Inr (if getPhraseLowercase penv fp = [] then bm else resetBits bm)
      \<and> ((toLower penv (fp_phrase fp) = [] \<longleftrightarrow> fp_phrase fp = []) \<longrightarrow>
           filterAnyCasePhrase_apply penv fp bs bm
             = Inr (if fp_phrase fp = [] then bm else resetBits bm)))
   \<and> (getConstColumnValue bs (fsr_fieldName fsr) = [] \<and> getColumnHeader bs (fsr_fieldName fsr) = None \<longrightarrow>
      filterStringRange_apply fmt fsr bs bm
        = absent_column_spec (\<lambda>v. matchStringRange v (fsr_minValue fsr) (fsr_maxValue fsr)) bm
      \<and> filterStringRange_apply fmt fsr bs bm
        = Inr (if fsr_minValue fsr \<le> [] \<and> [] < fsr_maxValue fsr then bm else resetBits bm))
   \<and> (getConstColumnValue bs (fr_fieldName fr) = [] \<and> getColumnHeader bs (fr_fieldName fr) = None \<longrightarrow>
      filterRange_apply renv fr bs bm = Inr (resetBits bm)
      \<and> (tryParseFloat64 renv [] = None \<longrightarrow>
           filterRange_apply renv fr bs bm
             = absent_column_spec (\<lambda>v. matchRange renv v (fr_minValue fr) (fr_maxValue fr)) bm))"
proof (intro conjI impI; (elim conjE)?)
  assume a: "getConstColumnValue bs (fp_fieldName fp) = []" "getColumnHeader bs (fp_fieldName fp) = None"
  have m: "matchAnyCasePhrase penv [] p = (p = [])" for p
    by (simp add: matchAnyCasePhrase_def)
  show p1: "filterAnyCasePhrase_apply penv fp bs bm
        = Inr (if getPhraseLowercase penv fp = [] then bm else resetBits bm)"
    using a by (simp add: filterAnyCasePhrase_apply_def Let_def)
  then show "filterAnyCasePhrase_apply penv fp bs bm
        = absent_column_spec (\<lambda>v. matchAnyCasePhrase penv v (getPhraseLowercase penv fp)) bm"
    by (simp add: absent_column_spec_def forEachSetBit_const m)
  assume "toLower penv (fp_phrase fp) = [] \<longleftrightarrow> fp_phrase fp = []"
  with p1 show "filterAnyCasePhrase_apply penv fp bs bm
             = Inr (if fp_phrase fp = [] then bm else resetBits bm)"
    by (simp add: getPhraseLowercase_def)
next
  assume a: "getConstColumnValue bs (fsr_fieldName fsr) = []" "getColumnHeader bs (fsr_fieldName fsr) = None"
  have g: "string_greater (fsr_minValue fsr) (fsr_maxValue fsr) \<Longrightarrow>
      \<not> (fsr_minValue fsr \<le> [] \<and> [] < fsr_maxValue fsr)"
    by (auto simp: string_greater_iff)
  show p2: "filterStringRange_apply fmt fsr bs bm
        = Inr (if fsr_minValue fsr \<le> [] \<and> [] < fsr_maxValue fsr then bm else resetBits bm)"
  proof (cases "string_greater (fsr_minValue fsr) (fsr_maxValue fsr)")
    case True
    with g have "\<not> (fsr_minValue fsr \<le> [] \<and> [] < fsr_maxValue fsr)" by blast
    with True show ?thesis
      by (auto simp: filterStringRange_apply_def Let_def)
  next
    case False
    with a show ?thesis
      by (simp add: filterStringRange_apply_def Let_def matchStringRange_def string_ge_iff
          string_less_iff)
  qed
  then show "filterStringRange_apply fmt fsr bs bm
        = absent_column_spec (\<lambda>v. matchStringRange v (fsr_minValue fsr) (fsr_maxValue fsr)) bm"
    by (simp add: absent_column_spec_def forEachSetBit_const matchStringRange_def string_ge_iff
        string_less_iff)
next
  assume a: "getConstColumnValue bs (fr_fieldName fr) = []" "getColumnHeader bs (fr_fieldName fr) = None"
  show p3: "filterRange_apply renv fr bs bm = Inr (resetBits bm)"
    using a by (simp add: filterRange_apply_def Let_def)
  assume "tryParseFloat64 renv [] = None"
  with p3 show "filterRange_apply renv fr bs bm
             = absent_column_spec (\<lambda>v. matchRange renv v (fr_minValue fr) (fr_maxValue fr)) bm"
    by (simp add: absent_column_spec_def forEachSetBit_const matchRange_def)
qed

theorem C4_absent_column_witness:
  "getConstColumnValue fruit_block ''bar'' = [] \<and> getColumnHeader fruit_block ''bar'' = None
   \<and> filterAnyCasePhrase_apply example_phraseEnv i_absent_empty fruit_block
        [True, False, True, False, True] = Inr [True, False, True, False, True]
   \<and> filterAnyCasePhrase_apply example_phraseEnv i_absent_Err fruit_block
        [True, False, True, False, True] = Inr [False, False, False, False, False]
   \<and> filterStringRange_apply example_formatters string_range_absent fruit_block
        [True, False, True, False, True] = Inr [True, False, True, False, True]
   \<and> filterRange_apply example_rangeEnv range_absent fruit_block
        [True, False, True, False, True] = Inr [False, False, False, False, False]
   \<and> tryParseFloat64 example_rangeEnv [] = None
   \<and> absent_column_spec
         (\<lambda>v. matchRange example_rangeEnv v (fr_minValue range_absent) (fr_maxValue range_absent))
         [True, False, True, False, True] = Inr [False, False, False, False, False]"
proof -
  let ?bm = "[True, False, True, False, True]"
  have pre: "getConstColumnValue fruit_block ''bar'' = []" "getColumnHeader fruit_block ''bar'' = None"
    by (simp_all add: getConstColumnValue_def getColumnHeader_def fruit_block_def)
  have n: "fp_fieldName i_absent_empty = ''bar''" "fp_fieldName i_absent_Err = ''bar''"
    "fsr_fieldName string_range_absent = ''bar''" "fr_fieldName range_absent = ''bar''"
    by (simp_all add: i_absent_empty_def i_absent_Err_def string_range_absent_def range_absent_def)
  have p: "tryParseFloat64 example_rangeEnv [] = None"
    by (simp add: example_rangeEnv_def)
  have l: "getPhraseLowercase example_phraseEnv i_absent_empty = []"
    "getPhraseLowercase example_phraseEnv i_absent_Err \<noteq> []"
    "fsr_minValue string_range_absent \<le> [] \<and> [] < fsr_maxValue string_range_absent"
    by (simp_all add: getPhraseLowercase_def example_phraseEnv_def i_absent_empty_def
        i_absent_Err_def string_range_absent_def)
  note inst1 = C4_absent_column [of fruit_block i_absent_empty example_phraseEnv ?bm
      string_range_absent example_formatters range_absent example_rangeEnv, unfolded n]
  note inst2 = C4_absent_column [of fruit_block i_absent_Err example_phraseEnv ?bm
      string_range_absent example_formatters range_absent example_rangeEnv, unfolded n]
  from inst1 pre have "filterAnyCasePhrase_apply example_phraseEnv i_absent_empty fruit_block ?bm
      = Inr (if getPhraseLowercase example_phraseEnv i_absent_empty = [] then ?bm else resetBits ?bm)"
    by blast
  with l have a: "filterAnyCasePhrase_apply example_phraseEnv i_absent_empty fruit_block ?bm = Inr ?bm"
    by simp
  from inst1 pre have "filterStringRange_apply example_formatters string_range_absent fruit_block ?bm
      = Inr (if fsr_minValue string_range_absent \<le> [] \<and> [] < fsr_maxValue string_range_absent
             then ?bm else resetBits ?bm)"
    by blast
  with l have b: "filterStringRange_apply example_formatters string_range_absent fruit_block ?bm = Inr ?bm"
    by simp
  from inst1 pre have c: "filterRange_apply example_rangeEnv range_absent fruit_block ?bm
      = Inr (resetBits ?bm)"
    by blast
  from inst1 pre p have "filterRange_apply example_rangeEnv range_absent fruit_block ?bm
      = absent_column_spec
         (\<lambda>v. matchRange example_rangeEnv v (fr_minValue range_absent) (fr_maxValue range_absent)) ?bm"
    by blast
  with c have d: "absent_column_spec
         (\<lambda>v. matchRange example_rangeEnv v (fr_minValue range_absent) (fr_maxValue range_absent))
         ?bm = Inr (resetBits ?bm)"
    by simp
  from inst2 pre have "filterAnyCasePhrase_apply example_phraseEnv i_absent_Err fruit_block ?bm
      = Inr (if getPhraseLowercase example_phraseEnv i_absent_Err = [] then ?bm else resetBits ?bm)"
    by blast
  with l have e: "filterAnyCasePhrase_apply example_phraseEnv i_absent_Err fruit_block ?bm
      = Inr (resetBits ?bm)"
    by simp
  from pre p a b c d e show ?thesis
    by (simp add: resetBits_def)
qed

section \<open>filterRange on uintN columns\<close>

lemma foldl_bigEndian_bound:
  "foldl (\<lambda>n c. n * 256 + of_char c) (a::nat) v < (a + 1) * 256 ^ length v"
proof (induction v arbitrary: a)
  case Nil
  then show ?case by simp
next
  case (Cons c v)
  have "of_char c < (256 :: nat)" by (rule nat_of_char_less_256)
  then have "a * 256 + of_char c + 1 \<le> (a + 1) * 256" by arith
  then have le: "(a * 256 + of_char c + 1) * 256 ^ length v \<le> (a + 1) * 256 * 256 ^ length v"
    by (rule mult_le_mono1)
  have "foldl (\<lambda>n c. n * 256 + of_char c) (a * 256 + of_char c) v
      < (a * 256 + of_char c + 1) * 256 ^ length v"
    by (rule Cons.IH)
  also note le
  finally show ?case by (simp add: algebra_simps)
qed

lemma bigEndian_bound: "bigEndian v < 256 ^ length v"
  using foldl_bigEndian_bound [of 0 v] by (simp add: bigEndian_def)

lemma decode8: "length v = 1 \<Longrightarrow> (of_char (v ! 0) :: 64 word) = storedUint v"
  by (cases v) (simp_all add: storedUint_def bigEndian_def of_nat_of_char)

lemma ucast_of_nat_small:
  "n < 2 ^ LENGTH('a) \<Longrightarrow> LENGTH('a::len) \<le> LENGTH('b::len) \<Longrightarrow>
   (ucast (of_nat n :: 'a word) :: 'b word) = of_nat n"
  by (metis of_nat_inverse of_nat_unat)

lemma decode16: "length v = 2 \<Longrightarrow> (ucast (unmarshalUint16 v) :: 64 word) = storedUint v"
  using bigEndian_bound [of v]
  by (simp add: unmarshalUint16_def storedUint_def ucast_of_nat_small)

lemma decode32: "length v = 4 \<Longrightarrow> (ucast (unmarshalUint32 v) :: 64 word) = storedUint v"
  using bigEndian_bound [of v]
  by (simp add: unmarshalUint32_def storedUint_def ucast_of_nat_small)

lemma decode64: "length v = 8 \<Longrightarrow> unmarshalUint64 v = storedUint v"
  by (simp add: unmarshalUint64_def storedUint_def)

lemma uint_scan:
  assumes v: "\<And>j. j < length bm \<Longrightarrow> bm ! j \<Longrightarrow>
      j < length (getValuesForColumn bs ch) \<and> length (getValuesForColumn bs ch ! j) = k
      \<and> ch_minValue ch \<le> storedUint (getValuesForColumn bs ch ! j)
      \<and> storedUint (getValuesForColumn bs ch ! j) \<le> ch_maxValue ch"
    and d: "\<And>v. length v = k \<Longrightarrow> dec v = storedUint v"
  shows "(if float64_less maxValue (Finite 0) \<or> lo > ch_maxValue ch \<or> hi < ch_minValue ch
          then Inr (resetBits bm)
          else visitValues bs ch bm
            (\<lambda>v. if length v \<noteq> k then Inl UnexpectedLength
                 else Inr (dec v \<ge> lo \<and> dec v \<le> hi)))
     = Inr (keepRows {j. \<not> float64_less maxValue (Finite 0)
                        \<and> lo \<le> storedUint (getValuesForColumn bs ch ! j)
                        \<and> storedUint (getValuesForColumn bs ch ! j) \<le> hi} bm)"
proof (cases "float64_less maxValue (Finite 0) \<or> lo > ch_maxValue ch \<or> hi < ch_minValue ch")
  case True
  have "keepRows {j. \<not> float64_less maxValue (Finite 0)
                        \<and> lo \<le> storedUint (getValuesForColumn bs ch ! j)
                        \<and> storedUint (getValuesForColumn bs ch ! j) \<le> hi} bm = keepRows {} bm"
    by (rule keepRows_cong) (use True v in fastforce)
  with True show ?thesis
    by (simp add: resetBits_keepRows)
next
  case False
  have "visitValues bs ch bm
            (\<lambda>v. if length v \<noteq> k then Inl UnexpectedLength
                 else Inr (dec v \<ge> lo \<and> dec v \<le> hi))
      = Inr (keepRows {j. lo \<le> storedUint (getValuesForColumn bs ch ! j)
                        \<and> storedUint (getValuesForColumn bs ch ! j) \<le> hi} bm)"
    by (rule visitValues_eq [where p = "\<lambda>v. lo \<le> storedUint v \<and> storedUint v \<le> hi"])
      (use v d in simp)
  with False show ?thesis by simp
qed


lemma filterRange_apply_uint:
  assumes c: "getConstColumnValue bs (fr_fieldName fr) = []"
    and h: "getColumnHeader bs (fr_fieldName fr) = Some ch"
    and t: "uintBytes (ch_valueType ch) = Some k"
    and v: "\<And>j. j < length bm \<Longrightarrow> bm ! j \<Longrightarrow>
      j < length (getValuesForColumn bs ch) \<and> length (getValuesForColumn bs ch ! j) = k
      \<and> ch_minValue ch \<le> storedUint (getValuesForColumn bs ch ! j)
      \<and> storedUint (getValuesForColumn bs ch ! j) \<le> ch_maxValue ch"
  shows "filterRange_apply env fr bs bm =
     Inr (keepRows {j. \<not> float64_greater (fr_minValue fr) (fr_maxValue fr)
                      \<and> \<not> float64_less (fr_maxValue fr) (Finite 0)
                      \<and> toUint64Clamp env (float64_Ceil (fr_minValue fr))
                           \<le> storedUint (getValuesForColumn bs ch ! j)
                      \<and> storedUint (getValuesForColumn bs ch ! j)
                           \<le> toUint64Clamp env (float64_Floor (fr_maxValue fr))} bm)"
proof (cases "float64_greater (fr_minValue fr) (fr_maxValue fr)")
  case True
  then show ?thesis
    by (simp add: filterRange_apply_def resetBits_keepRows)
next
  case False
  let ?lo = "toUint64Clamp env (float64_Ceil (fr_minValue fr))"
  let ?hi = "toUint64Clamp env (float64_Floor (fr_maxValue fr))"
  let ?R = "Inr (keepRows {j. \<not> float64_less (fr_maxValue fr) (Finite 0)
                        \<and> ?lo \<le> storedUint (getValuesForColumn bs ch ! j)
                        \<and> storedUint (getValuesForColumn bs ch ! j) \<le> ?hi} bm) :: error + bitmap"
  have m8: "k = 1 \<Longrightarrow> matchUint8ByRange env bs ch bm (fr_minValue fr) (fr_maxValue fr) = ?R"
    unfolding matchUint8ByRange_def toUint64Range_def Let_def prod.case
    by (rule uint_scan [where k = 1]) (use v decode8 in auto)
  have m16: "k = 2 \<Longrightarrow> matchUint16ByRange env bs ch bm (fr_minValue fr) (fr_maxValue fr) = ?R"
    unfolding matchUint16ByRange_def toUint64Range_def Let_def prod.case
    by (rule uint_scan [where k = 2]) (use v decode16 in auto)
  have m32: "k = 4 \<Longrightarrow> matchUint32ByRange env bs ch bm (fr_minValue fr) (fr_maxValue fr) = ?R"
    unfolding matchUint32ByRange_def toUint64Range_def Let_def prod.case
    by (rule uint_scan [where k = 4]) (use v decode32 in auto)
  have m64: "k = 8 \<Longrightarrow> matchUint64ByRange env bs ch bm (fr_minValue fr) (fr_maxValue fr) = ?R"
    unfolding matchUint64ByRange_def toUint64Range_def Let_def prod.case
    by (rule uint_scan [where k = 8]) (use v decode64 in auto)
  show ?thesis
    using False c h t m8 m16 m32 m64
    by (cases "ch_valueType ch") (simp_all add: filterRange_apply_def)
qed

text \<open>
  \<^verbatim>\<open>toUint64Clamp\<close> is the clamp into the range from 0 to \<open>2\<^sup>6\<^sup>4 - 1\<close> at every float64
  but two: at exactly \<open>2\<^sup>6\<^sup>4\<close> the guard \<^verbatim>\<open>f > math.MaxUint64\<close> does not fire, and at NaN
  no guard fires; there the result is that of the conversion of an unrepresentable
  value, which depends on the implementation.
\<close>

lemma word_of_int_max_uint64: "(word_of_int (2 ^ 64 - 1) :: 64 word) = - 1"
  by simp

lemma toUint64Clamp_clamp_uint64:
  assumes "f \<noteq> NaN" and "f \<noteq> Finite (2 ^ 64)"
  shows "toUint64Clamp env f = clamp_uint64 f"
proof (cases f)
  case (Finite x)
  consider "x < 0" | "0 \<le> x" "x < 2 ^ 64" | "2 ^ 64 < x"
    using assms(2) Finite by fastforce
  then show ?thesis
  proof cases
    case 1
    then have "\<lfloor>x\<rfloor> < 0" by (simp add: floor_less_iff)
    then have "max 0 (min (2 ^ 64 - 1) \<lfloor>x\<rfloor>) = 0" by simp
    with 1 Finite show ?thesis
      by (simp add: toUint64Clamp_def)
  next
    case 2
    then have "0 \<le> \<lfloor>x\<rfloor>" "\<lfloor>x\<rfloor> < 2 ^ 64"
      by (simp_all add: floor_less_iff)
    then have "max 0 (min (2 ^ 64 - 1) \<lfloor>x\<rfloor>) = \<lfloor>x\<rfloor>" by simp
    with 2 Finite show ?thesis
      by (simp add: toUint64Clamp_def float64_greater_def truncReal_def)
  next
    case 3
    then have "2 ^ 64 \<le> \<lfloor>x\<rfloor>" by (simp add: le_floor_iff)
    then have "max 0 (min (2 ^ 64 - 1) \<lfloor>x\<rfloor>) = 2 ^ 64 - 1" by simp
    with 3 Finite show ?thesis
      by (simp add: toUint64Clamp_def float64_greater_def word_of_int_max_uint64)
  qed
qed (use assms in \<open>simp_all add: toUint64Clamp_def float64_greater_def\<close>)

lemma toUint64Clamp_unrepresentable:
  "toUint64Clamp env (Finite (2 ^ 64)) = unrepresentable env (Finite (2 ^ 64))"
  "toUint64Clamp env NaN = unrepresentable env NaN"
  by (simp_all add: toUint64Clamp_def float64_greater_def truncReal_def)

lemma float64_le_iff_not_greater:
  "a \<noteq> NaN \<Longrightarrow> b \<noteq> NaN \<Longrightarrow> float64_le a b = (\<not> float64_greater a b)"
  by (cases a; cases b) (auto simp: float64_greater_def)

lemma float64_ge_iff_not_less:
  "a \<noteq> NaN \<Longrightarrow> b \<noteq> NaN \<Longrightarrow> float64_ge a b = (\<not> float64_less a b)"
  by (cases a; cases b) (auto simp: float64_ge_def)

lemmas clamp_eval = float64_greater_def float64_ge_def storedUint_def bigEndian_def

text \<open>
  Claim C8, as stated, at reversed bounds above \<open>2\<^sup>6\<^sup>4\<close> on a uint64 column holding
  \<open>2\<^sup>6\<^sup>4 - 1\<close> and \<open>2\<^sup>6\<^sup>4 - 2\<close>: both bounds clamp to \<open>2\<^sup>6\<^sup>4 - 1\<close> and maxValue is
  not negative, so the stated condition holds for the stored value \<open>2\<^sup>6\<^sup>4 - 1\<close> of row
  0; but \<^verbatim>\<open>filterRange.apply\<close> resets the bitmap at its first guard,
  \<^verbatim>\<open>minValue > maxValue\<close>.
\<close>

theorem C8_reversed_bounds_counterexample:
  "getValuesForColumn max_uint64_block max_uint64_header
     = [max_uint64_bytes, below_max_uint64_bytes]
   \<and> filterRange_apply example_rangeEnv range_reversed max_uint64_block [True, True]
       = Inr [False, False]
   \<and> float64_ge (fr_maxValue range_reversed) (Finite 0)
   \<and> clamp_uint64 (float64_Ceil (fr_minValue range_reversed)) \<le> storedUint max_uint64_bytes
   \<and> storedUint max_uint64_bytes \<le> clamp_uint64 (float64_Floor (fr_maxValue range_reversed))"
proof -
  have m: "storedUint max_uint64_bytes = - 1"
    by (simp add: storedUint_def bigEndian_def max_uint64_bytes_def)
  have a: "filterRange_apply example_rangeEnv range_reversed max_uint64_block [True, True]
      = Inr [False, False]"
    by (simp add: filterRange_apply_def range_reversed_def float64_greater_def resetBits_def)
  have b: "getValuesForColumn max_uint64_block max_uint64_header
      = [max_uint64_bytes, below_max_uint64_bytes]"
    by (simp add: getValuesForColumn_def max_uint64_block_def max_uint64_header_def)
  have c: "float64_ge (fr_maxValue range_reversed) (Finite 0)"
    by (simp add: range_reversed_def float64_ge_def)
  have d: "clamp_uint64 (float64_Ceil (fr_minValue range_reversed)) = - 1"
    by (simp add: range_reversed_def)
  have e: "clamp_uint64 (float64_Floor (fr_maxValue range_reversed)) = - 1"
    by (simp add: range_reversed_def)
  from a b c show ?thesis
    by (simp add: m d e)
qed

text \<open>
  Claim C8, amended. On a uintN column (a header of type uint8, uint16, uint32 or
  uint64, no constant value) whose set rows hold values of N/8 bytes within the bounds
  of the header, and for bounds that are not NaN and whose ceiling and floor are not
  exactly \<open>2\<^sup>6\<^sup>4\<close>, \<^verbatim>\<open>filterRange.apply\<close> keeps exactly the set rows whose stored value
  \<open>n\<close> satisfies: \<open>minValue \<le> maxValue\<close>, \<open>maxValue \<ge> 0\<close>, and
  \<open>clamp (ceil minValue) \<le> n \<le> clamp (floor maxValue)\<close>, where clamp maps into the
  range from 0 to \<open>2\<^sup>6\<^sup>4 - 1\<close>. In particular it clears every bit when \<open>maxValue < 0\<close>.
\<close>

theorem C8_uint_range:
  "getConstColumnValue bs (fr_fieldName fr) = []
     \<and> getColumnHeader bs (fr_fieldName fr) = Some ch
     \<and> uintBytes (ch_valueType ch) = Some k
     \<and> (\<forall>j<length bm. bm ! j \<longrightarrow>
           j < length (getValuesForColumn bs ch) \<and> length (getValuesForColumn bs ch ! j) = k
           \<and> ch_minValue ch \<le> storedUint (getValuesForColumn bs ch ! j)
           \<and> storedUint (getValuesForColumn bs ch ! j) \<le> ch_maxValue ch)
     \<and> fr_minValue fr \<noteq> NaN \<and> fr_maxValue fr \<noteq> NaN
     \<and> float64_Ceil (fr_minValue fr) \<noteq> Finite (2 ^ 64)
     \<and> float64_Floor (fr_maxValue fr) \<noteq> Finite (2 ^ 64)
   \<longrightarrow> filterRange_apply env fr bs bm =
         Inr (keepRows {j. uintRangeMatches fr (storedUint (getValuesForColumn bs ch ! j))} bm)
       \<and> (float64_less (fr_maxValue fr) (Finite 0) \<longrightarrow>
            filterRange_apply env fr bs bm = Inr (resetBits bm))"
proof (intro impI, elim conjE)
  assume c: "getConstColumnValue bs (fr_fieldName fr) = []"
    and h: "getColumnHeader bs (fr_fieldName fr) = Some ch"
    and t: "uintBytes (ch_valueType ch) = Some k"
    and v: "\<forall>j<length bm. bm ! j \<longrightarrow>
           j < length (getValuesForColumn bs ch) \<and> length (getValuesForColumn bs ch ! j) = k
           \<and> ch_minValue ch \<le> storedUint (getValuesForColumn bs ch ! j)
           \<and> storedUint (getValuesForColumn bs ch ! j) \<le> ch_maxValue ch"
    and n: "fr_minValue fr \<noteq> NaN" "fr_maxValue fr \<noteq> NaN"
    and e: "float64_Ceil (fr_minValue fr) \<noteq> Finite (2 ^ 64)"
      "float64_Floor (fr_maxValue fr) \<noteq> Finite (2 ^ 64)"
  have cn1: "float64_Ceil (fr_minValue fr) \<noteq> NaN"
    using n(1) by (cases "fr_minValue fr") simp_all
  have cn2: "float64_Floor (fr_maxValue fr) \<noteq> NaN"
    using n(2) by (cases "fr_maxValue fr") simp_all
  have lo: "toUint64Clamp env (float64_Ceil (fr_minValue fr))
      = clamp_uint64 (float64_Ceil (fr_minValue fr))"
    using cn1 e(1) by (rule toUint64Clamp_clamp_uint64)
  have hi: "toUint64Clamp env (float64_Floor (fr_maxValue fr))
      = clamp_uint64 (float64_Floor (fr_maxValue fr))"
    using cn2 e(2) by (rule toUint64Clamp_clamp_uint64)
  have u: "uintRangeMatches fr x =
      (\<not> float64_greater (fr_minValue fr) (fr_maxValue fr)
       \<and> \<not> float64_less (fr_maxValue fr) (Finite 0)
       \<and> toUint64Clamp env (float64_Ceil (fr_minValue fr)) \<le> x
       \<and> x \<le> toUint64Clamp env (float64_Floor (fr_maxValue fr)))" for x
    using n by (simp add: uintRangeMatches_def lo hi float64_le_iff_not_greater
        float64_ge_iff_not_less)
  have m: "filterRange_apply env fr bs bm =
      Inr (keepRows {j. uintRangeMatches fr (storedUint (getValuesForColumn bs ch ! j))} bm)"
    unfolding u by (rule filterRange_apply_uint [where k = k]) (use c h t v in simp_all)
  have "{j. uintRangeMatches fr (storedUint (getValuesForColumn bs ch ! j))} = {}"
    if "float64_less (fr_maxValue fr) (Finite 0)"
    using that by (simp add: u)
  with m show "filterRange_apply env fr bs bm =
         Inr (keepRows {j. uintRangeMatches fr (storedUint (getValuesForColumn bs ch ! j))} bm)
       \<and> (float64_less (fr_maxValue fr) (Finite 0) \<longrightarrow>
            filterRange_apply env fr bs bm = Inr (resetBits bm))"
    by (simp add: resetBits_keepRows)
qed

theorem C8_uint_range_witness:
  "getConstColumnValue small_numbers_block (fr_fieldName range_1p5_100p9) = []
   \<and> getColumnHeader small_numbers_block (fr_fieldName range_1p5_100p9) = Some small_numbers_header
   \<and> uintBytes (ch_valueType small_numbers_header) = Some 1
   \<and> fr_minValue range_1p5_100p9 \<noteq> NaN \<and> fr_maxValue range_1p5_100p9 \<noteq> NaN
   \<and> float64_Ceil (fr_minValue range_1p5_100p9) \<noteq> Finite (2 ^ 64)
   \<and> float64_Floor (fr_maxValue range_1p5_100p9) \<noteq> Finite (2 ^ 64)
   \<and> filterRange_apply example_rangeEnv range_1p5_100p9 small_numbers_block [True, True, True]
       = Inr [False, True, False]
   \<and> float64_less (fr_maxValue range_below_zero) (Finite 0)
   \<and> filterRange_apply example_rangeEnv range_below_zero small_numbers_block [True, True, True]
       = Inr [False, False, False]"
proof -
  let ?bm = "[True, True, True]"
  let ?vals = "[[char_of (1 :: nat)], [char_of (5 :: nat)], [char_of (200 :: nat)]]"
  have n: "fr_fieldName range_1p5_100p9 = ''n''" "fr_fieldName range_below_zero = ''n''"
    by (simp_all add: range_1p5_100p9_def range_below_zero_def)
  have c: "getConstColumnValue small_numbers_block ''n'' = []"
    by (simp add: getConstColumnValue_def small_numbers_block_def)
  have h: "getColumnHeader small_numbers_block ''n'' = Some small_numbers_header"
    by (simp add: getColumnHeader_def small_numbers_block_def small_numbers_header_def)
  have t: "uintBytes (ch_valueType small_numbers_header) = Some 1"
    by (simp add: small_numbers_header_def)
  have v: "getValuesForColumn small_numbers_block small_numbers_header = ?vals"
    by (simp add: getValuesForColumn_def small_numbers_block_def small_numbers_header_def)
  have w: "\<forall>j<length ?bm. ?bm ! j \<longrightarrow>
            j < length ?vals \<and> length (?vals ! j) = 1
            \<and> ch_minValue small_numbers_header \<le> storedUint (?vals ! j)
            \<and> storedUint (?vals ! j) \<le> ch_maxValue small_numbers_header"
    by (simp add: All_less_Suc small_numbers_header_def storedUint_def bigEndian_def
        word_le_nat_alt)
  have f1: "fr_minValue range_1p5_100p9 \<noteq> NaN" "fr_maxValue range_1p5_100p9 \<noteq> NaN"
    "float64_Ceil (fr_minValue range_1p5_100p9) \<noteq> Finite (2 ^ 64)"
    "float64_Floor (fr_maxValue range_1p5_100p9) \<noteq> Finite (2 ^ 64)"
    by (simp_all add: range_1p5_100p9_def)
  have f2: "fr_minValue range_below_zero \<noteq> NaN" "fr_maxValue range_below_zero \<noteq> NaN"
    "float64_Ceil (fr_minValue range_below_zero) \<noteq> Finite (2 ^ 64)"
    "float64_Floor (fr_maxValue range_below_zero) \<noteq> Finite (2 ^ 64)"
    by (simp_all add: range_below_zero_def)
  have k1: "keepRows {j. uintRangeMatches range_1p5_100p9 (storedUint (?vals ! j))} ?bm
      = [False, True, False]"
    by (simp add: keepRows_def upt_rec uintRangeMatches_def range_1p5_100p9_def clamp_eval
        word_le_nat_alt)
  have z: "float64_less (fr_maxValue range_below_zero) (Finite 0)"
    by (simp add: range_below_zero_def)
  note inst1 = C8_uint_range [of small_numbers_block range_1p5_100p9 small_numbers_header 1 ?bm
      example_rangeEnv, unfolded n v]
  note inst2 = C8_uint_range [of small_numbers_block range_below_zero small_numbers_header 1 ?bm
      example_rangeEnv, unfolded n v]
  from inst1 c h t w f1
  have "filterRange_apply example_rangeEnv range_1p5_100p9 small_numbers_block ?bm =
      Inr (keepRows {j. uintRangeMatches range_1p5_100p9 (storedUint (?vals ! j))} ?bm)"
    by blast
  with k1 have a: "filterRange_apply example_rangeEnv range_1p5_100p9 small_numbers_block ?bm
      = Inr [False, True, False]"
    by simp
  from inst2 c h t w f2 z
  have "filterRange_apply example_rangeEnv range_below_zero small_numbers_block ?bm
      = Inr (resetBits ?bm)"
    by blast
  then have b: "filterRange_apply example_rangeEnv range_below_zero small_numbers_block ?bm
      = Inr [False, False, False]"
    by (simp add: resetBits_def)
  from c h t f1 a b z show ?thesis
    by (simp add: n)
qed

section \<open>Range filters on ipv4 and timestamp columns\<close>

lemma filterRange_apply_ipv4_iso8601:
  assumes "getConstColumnValue bs (fr_fieldName fr) = []"
    and "getColumnHeader bs (fr_fieldName fr) = Some ch"
    and "ch_valueType ch = valueTypeIPv4 \<or> ch_valueType ch = valueTypeTimestampISO8601"
  shows "filterRange_apply env fr bs bm = Inr (resetBits bm)"
  using assms by (auto simp: filterRange_apply_def Let_def)

lemma filterStringRange_apply_above_9:
  assumes "getConstColumnValue bs (fsr_fieldName fr) = []"
    and "getColumnHeader bs (fsr_fieldName fr) = Some ch"
    and "ch_valueType ch = valueTypeIPv4 \<or> ch_valueType ch = valueTypeTimestampISO8601"
    and "string_greater (fsr_minValue fr) ''9''"
  shows "filterStringRange_apply fmt fr bs bm = Inr (resetBits bm)"
  using assms
  by (auto simp: filterStringRange_apply_def Let_def matchIPv4ByStringRange_def
      matchTimestampISO8601ByStringRange_def)

lemmas ip_eval =
  filterStringRange_apply_def ipv4_block_def string_greater_def getConstColumnValue_def
  getColumnHeader_def matchIPv4ByStringRange_def matchFormattedByStringRange_def
  visitValues_def getValuesForColumn_def forEachSetBit_def example_formatters_def resetBits_def

text \<open>
  Claim C5, at an ipv4 column holding 9.1.2.3 and 9.1.2.4. \<^verbatim>\<open>filterRange.apply\<close> clears
  the bits whatever the interval, as the claim says. The canonical strings of both
  values lie in the half-open range from 9.0 to 9.9, yet \<^verbatim>\<open>filterStringRange.apply\<close>
  clears both bits: \<^verbatim>\<open>matchIPv4ByStringRange\<close> resets the bitmap without a scan when
  \<^verbatim>\<open>minValue > "9"\<close>, and every string that starts with 9 and goes on is above \<^verbatim>\<open>"9"\<close>.
  With the lower bound 8 the same rows are scanned and kept.
\<close>

theorem C5_string_range_drops_ipv4_in_range:
  "filterRange_apply example_rangeEnv range_ip ipv4_block [True, True] = Inr [False, False]
   \<and> ipv4String ip_9_1_2_3 = Inr ''9.1.2.3''
   \<and> ipv4String ip_9_1_2_4 = Inr ''9.1.2.4''
   \<and> matchStringRange ''9.1.2.3'' (fsr_minValue string_range_9) (fsr_maxValue string_range_9)
   \<and> matchStringRange ''9.1.2.4'' (fsr_minValue string_range_9) (fsr_maxValue string_range_9)
   \<and> filterStringRange_apply example_formatters string_range_9 ipv4_block [True, True]
       = Inr [False, False]
   \<and> filterStringRange_apply example_formatters string_range_8 ipv4_block [True, True]
       = Inr [True, True]"
proof -
  have r: "filterRange_apply example_rangeEnv range_ip ipv4_block [True, True] = Inr [False, False]"
    by (simp add: filterRange_apply_def range_ip_def float64_greater_def ipv4_block_def
        getConstColumnValue_def getColumnHeader_def resetBits_def)
  have ip: "ipv4String ip_9_1_2_3 = Inr ''9.1.2.3''" "ipv4String ip_9_1_2_4 = Inr ''9.1.2.4''"
    by (simp_all add: ipv4String_def ip_9_1_2_3_def ip_9_1_2_4_def decimal.simps digit_def)
  have m: "matchStringRange ''9.1.2.3'' (fsr_minValue string_range_9) (fsr_maxValue string_range_9)"
    "matchStringRange ''9.1.2.4'' (fsr_minValue string_range_9) (fsr_maxValue string_range_9)"
    by (simp_all add: matchStringRange_def string_ge_def string_range_9_def)
  have s9: "filterStringRange_apply example_formatters string_range_9 ipv4_block [True, True]
      = Inr [False, False]"
    by (simp add: ip_eval string_range_9_def)
  have s8: "filterStringRange_apply example_formatters string_range_8 ipv4_block [True, True]
      = Inr [True, True]"
    by (simp add: ip_eval string_range_8_def Let_def ipv4String_def ip_9_1_2_3_def
        ip_9_1_2_4_def decimal.simps digit_def matchStringRange_def string_ge_def)
  from r ip m s9 s8 show ?thesis by blast
qed

section \<open>count_empty\<close>

lemmas stats_eval =
  updateStatsForAllRows_def updateStatsForRow_def count_empty_a_b_def newStatsCountEmpty_def
  getColumnByName_def index_def addRows_def getBitmap_def setBits_def onesCount_def
  forEachSetBit_def getValueAtRow_def count_empty_spec_def

text \<open>
  Claim C2, at \<^verbatim>\<open>count_empty(a, b)\<close> over two rows. When \<^verbatim>\<open>a\<close> is a constant column
  holding \<^verbatim>\<open>x\<close> and \<^verbatim>\<open>b\<close> is empty in both rows, no row has both fields empty, and
  \<^verbatim>\<open>updateStatsForRow\<close> counts neither row; \<^verbatim>\<open>updateStatsForAllRows\<close> adds 2, since its
  slow path goes on to the next field at a constant column that is not empty. When
  \<^verbatim>\<open>a\<close> is constantly empty and \<^verbatim>\<open>b\<close> holds \<^verbatim>\<open>y\<close> and \<^verbatim>\<open>z\<close>, again no row has both
  fields empty and \<^verbatim>\<open>updateStatsForRow\<close> counts none; \<^verbatim>\<open>updateStatsForAllRows\<close> adds 2,
  since its slow path adds all the rows and returns at a constant column that is empty.
\<close>

theorem C2_count_empty_const_column:
  "count_empty_spec example_resultFormatters const_x_block (sc_fields (scp_sc count_empty_a_b)) = 0
   \<and> updateStatsForRow example_resultFormatters count_empty_a_b const_x_block 0
       = Inr (count_empty_a_b, 0)
   \<and> updateStatsForRow example_resultFormatters count_empty_a_b const_x_block 1
       = Inr (count_empty_a_b, 0)
   \<and> updateStatsForAllRows example_resultFormatters count_empty_a_b const_x_block
       = Inr (count_empty_a_b\<lparr>scp_rowsCount := 2\<rparr>, 0)
   \<and> count_empty_spec example_resultFormatters const_empty_block (sc_fields (scp_sc count_empty_a_b))
       = 0
   \<and> updateStatsForRow example_resultFormatters count_empty_a_b const_empty_block 0
       = Inr (count_empty_a_b, 0)
   \<and> updateStatsForRow example_resultFormatters count_empty_a_b const_empty_block 1
       = Inr (count_empty_a_b, 0)
   \<and> updateStatsForAllRows example_resultFormatters count_empty_a_b const_empty_block
       = Inr (count_empty_a_b\<lparr>scp_rowsCount := 2\<rparr>, 0)"
proof -
  have x1: "updateStatsForAllRows example_resultFormatters count_empty_a_b const_x_block
      = Inr (count_empty_a_b\<lparr>scp_rowsCount := 2\<rparr>, 0)"
    by (simp add: stats_eval const_x_block_def)
  have x2: "updateStatsForRow example_resultFormatters count_empty_a_b const_x_block 0
      = Inr (count_empty_a_b, 0)"
    "updateStatsForRow example_resultFormatters count_empty_a_b const_x_block 1
      = Inr (count_empty_a_b, 0)"
    by (simp_all add: stats_eval const_x_block_def)
  have x3: "count_empty_spec example_resultFormatters const_x_block
      (sc_fields (scp_sc count_empty_a_b)) = 0"
    by (simp add: stats_eval const_x_block_def upt_rec)
  have y1: "updateStatsForAllRows example_resultFormatters count_empty_a_b const_empty_block
      = Inr (count_empty_a_b\<lparr>scp_rowsCount := 2\<rparr>, 0)"
    by (simp add: stats_eval const_empty_block_def)
  have y2: "updateStatsForRow example_resultFormatters count_empty_a_b const_empty_block 0
      = Inr (count_empty_a_b, 0)"
    "updateStatsForRow example_resultFormatters count_empty_a_b const_empty_block 1
      = Inr (count_empty_a_b, 0)"
    by (simp_all add: stats_eval const_empty_block_def)
  have y3: "count_empty_spec example_resultFormatters const_empty_block
      (sc_fields (scp_sc count_empty_a_b)) = 0"
    by (simp add: stats_eval const_empty_block_def upt_rec)
  from x1 x2 x3 y1 y2 y3 show ?thesis by blast
qed

section \<open>filterOr\<close>

text \<open>
  A string-range filter on a string column that has a value for each of the \<open>n\<close> rows
  acts on the bitmaps of \<open>n\<close> rows as the intersection with the rows whose value lies
  in the range.
\<close>

lemma filterStringRange_acts_as_inter:
  assumes "getConstColumnValue bs (fsr_fieldName fr) = []"
    and "getColumnHeader bs (fsr_fieldName fr) = Some ch"
    and "ch_valueType ch = valueTypeString"
    and "n \<le> length (getValuesForColumn bs ch)"
  shows "acts_as_inter (filterStringRange_apply fmt fr) bs n
     {j. fsr_minValue fr \<le> getValuesForColumn bs ch ! j
         \<and> getValuesForColumn bs ch ! j < fsr_maxValue fr}"
  unfolding acts_as_inter_def
  by (intro allI impI filterStringRange_apply_string_column) (use assms in auto)

lemma acts_as_inter_rows:
  assumes "acts_as_inter f bs n P"
    and "\<And>j. j < n \<Longrightarrow> (j \<in> P) = (j \<in> Q)"
  shows "acts_as_inter f bs n Q"
  unfolding acts_as_inter_def
proof (intro allI impI)
  fix bm :: bitmap
  assume l: "length bm = n"
  with assms(1) have "f bs bm = Inr (keepRows P bm)"
    by (simp add: acts_as_inter_def)
  moreover have "keepRows P bm = keepRows Q bm"
    by (rule keepRows_cong) (use assms(2) l in simp)
  ultimately show "f bs bm = Inr (keepRows Q bm)" by simp
qed

lemma fruit_string_column:
  "getConstColumnValue fruit_block ''foo'' = []"
  "getColumnHeader fruit_block ''foo'' = Some fruit_header"
  "ch_valueType fruit_header = valueTypeString"
  "getValuesForColumn fruit_block fruit_header = [''alpha'', ''mango'', ''oregano'', ''pear'', ''m'']"
  by (simp_all add: getConstColumnValue_def getColumnHeader_def getValuesForColumn_def
      fruit_block_def fruit_header_def)

lemma string_range_m_p_acts:
  "acts_as_inter (filterStringRange_apply example_formatters string_range_m_p) fruit_block 5
     {1, 2, 4}"
proof -
  have n: "fsr_fieldName string_range_m_p = ''foo''"
    by (simp add: string_range_m_p_def)
  have "acts_as_inter (filterStringRange_apply example_formatters string_range_m_p) fruit_block 5
     {j. fsr_minValue string_range_m_p \<le> getValuesForColumn fruit_block fruit_header ! j
         \<and> getValuesForColumn fruit_block fruit_header ! j < fsr_maxValue string_range_m_p}"
    by (rule filterStringRange_acts_as_inter) (simp_all add: n fruit_string_column)
  then show ?thesis
  proof (rule acts_as_inter_rows)
    fix j :: nat
    assume "j < 5"
    then consider "j = 0" | "j = 1" | "j = 2" | "j = 3" | "j = 4" by linarith
    then show "(j \<in> {j. fsr_minValue string_range_m_p \<le> getValuesForColumn fruit_block fruit_header ! j
         \<and> getValuesForColumn fruit_block fruit_header ! j < fsr_maxValue string_range_m_p})
        = (j \<in> {1, 2, 4})"
      by cases (simp_all add: fruit_string_column string_range_m_p_def)
  qed
qed

lemma string_range_a_b_acts:
  "acts_as_inter (filterStringRange_apply example_formatters string_range_a_b) fruit_block 5 {0}"
proof -
  have n: "fsr_fieldName string_range_a_b = ''foo''"
    by (simp add: string_range_a_b_def)
  have "acts_as_inter (filterStringRange_apply example_formatters string_range_a_b) fruit_block 5
     {j. fsr_minValue string_range_a_b \<le> getValuesForColumn fruit_block fruit_header ! j
         \<and> getValuesForColumn fruit_block fruit_header ! j < fsr_maxValue string_range_a_b}"
    by (rule filterStringRange_acts_as_inter) (simp_all add: n fruit_string_column)
  then show ?thesis
  proof (rule acts_as_inter_rows)
    fix j :: nat
    assume "j < 5"
    then consider "j = 0" | "j = 1" | "j = 2" | "j = 3" | "j = 4" by linarith
    then show "(j \<in> {j. fsr_minValue string_range_a_b \<le> getValuesForColumn fruit_block fruit_header ! j
         \<and> getValuesForColumn fruit_block fruit_header ! j < fsr_maxValue string_range_a_b})
        = (j \<in> {0})"
      by cases (simp_all add: fruit_string_column string_range_a_b_def)
  qed
qed

text \<open>
  Claim C3. When every branch of a filterOr acts on the bitmaps of the block's rows as
  the intersection with a fixed set of matching rows (\<open>P\<close> for the branch at the same
  position of \<open>Ps\<close>), \<^verbatim>\<open>filterOr.apply\<close> returns the old bitmap intersected with the
  union of these sets: its set rows are the old set rows that lie in some \<open>P\<close>. The
  incremental scheme of the code (each branch sees only the rows not yet in the result,
  and the loop breaks when none is left) returns the same bitmap as applying every
  branch to a full copy and uniting the results.
\<close>

theorem C3_filterOr:
  "list_all2 (\<lambda>f P. acts_as_inter f bs (length bm) P) filters Ps \<Longrightarrow>
   filterOr_apply filters bs bm = Inr (keepRows (\<Union>(set Ps)) bm)
   \<and> setRows (keepRows (\<Union>(set Ps)) bm) = setRows bm \<inter> \<Union>(set Ps)
   \<and> filterOr_apply filters bs bm = or_spec filters bs bm"
  by (simp add: filterOr_apply_def or_spec_def getBitmap_keepRows filterOr_loop_inter
      or_spec_loop_inter copyFrom_def setRows_keepRows)

theorem C3_filterOr_witness:
  "list_all2 (\<lambda>f P. acts_as_inter f fruit_block (length [True, True, True, True, True]) P)
     [filterStringRange_apply example_formatters string_range_a_b,
      filterStringRange_apply example_formatters string_range_m_p]
     [{0}, {1, 2, 4}]
   \<and> filterOr_apply
        [filterStringRange_apply example_formatters string_range_a_b,
         filterStringRange_apply example_formatters string_range_m_p]
        fruit_block [True, True, True, True, True] = Inr [True, True, True, False, True]
   \<and> or_spec
        [filterStringRange_apply example_formatters string_range_a_b,
         filterStringRange_apply example_formatters string_range_m_p]
        fruit_block [True, True, True, True, True] = Inr [True, True, True, False, True]
   \<and> filterOr_apply
        [filterStringRange_apply example_formatters string_range_a_b,
         filterStringRange_apply example_formatters string_range_m_p]
        fruit_block [False, True, True, True, False] = Inr [False, True, True, False, False]"
proof -
  let ?a = "filterStringRange_apply example_formatters string_range_a_b"
  let ?m = "filterStringRange_apply example_formatters string_range_m_p"
  let ?bm = "[False, True, True, True, False]"
  let ?all = "[True, True, True, True, True]"
  have l: "length ?bm = 5" "length ?all = 5"
    by simp_all
  have h1: "list_all2 (\<lambda>f P. acts_as_inter f fruit_block (length ?all) P)
      [?a, ?m] [{0}, {1, 2, 4}]"
    unfolding l
    by (simp only: list.rel_inject string_range_a_b_acts string_range_m_p_acts simp_thms)
  have h2: "list_all2 (\<lambda>f P. acts_as_inter f fruit_block (length ?bm) P)
      [?a, ?m] [{0}, {1, 2, 4}]"
    unfolding l
    by (simp only: list.rel_inject string_range_a_b_acts string_range_m_p_acts simp_thms)
  have k1: "keepRows (\<Union>(set [{0}, {1, 2, 4}])) ?all = [True, True, True, False, True]"
    by (simp add: keepRows_def upt_rec)
  have k2: "keepRows (\<Union>(set [{0}, {1, 2, 4}])) ?bm = [False, True, True, False, False]"
    by (simp add: keepRows_def upt_rec)
  from C3_filterOr [OF h1] have
    "filterOr_apply [?a, ?m] fruit_block ?all = Inr (keepRows (\<Union>(set [{0}, {1, 2, 4}])) ?all)"
    and "or_spec [?a, ?m] fruit_block ?all = Inr (keepRows (\<Union>(set [{0}, {1, 2, 4}])) ?all)"
    by metis+
  moreover from C3_filterOr [OF h2] have
    "filterOr_apply [?a, ?m] fruit_block ?bm = Inr (keepRows (\<Union>(set [{0}, {1, 2, 4}])) ?bm)"
    by metis
  ultimately show ?thesis
    using h1 k1 k2 by simp
qed

section \<open>filterNot\<close>

text \<open>
  Claim C7. \<^verbatim>\<open>filterNot.apply\<close> applies the inner filter to a copy of the bitmap and
  returns the old bitmap without the rows that survived in the copy: when the inner
  filter returns \<open>t\<close>, the set rows of the result are the old set rows minus the set
  rows of \<open>t\<close>. The double negation returns the bitmap the inner filter itself returns,
  whenever the inner filter returns a bitmap of the same length whose set rows were set
  before; in particular for an inner filter that acts on the bitmaps of the block's rows
  as the intersection with a fixed set of matching rows.
\<close>

theorem C7_filterNot:
  "(f bs bm = Inr t \<and> length t = length bm \<longrightarrow>
      (\<exists>r. filterNot_apply f bs bm = Inr r \<and> length r = length bm
           \<and> setRows r = setRows bm - setRows t))
   \<and> (f bs bm = Inr t \<and> sub_bitmap t bm \<longrightarrow>
        filterNot_apply (filterNot_apply f) bs bm = f bs bm)
   \<and> (acts_as_inter f bs (length bm) P \<longrightarrow>
        filterNot_apply (filterNot_apply f) bs bm = f bs bm)"
proof -
  have nn: "filterNot_apply (filterNot_apply f) bs bm = f bs bm"
    if a: "f bs bm = Inr u" and b: "sub_bitmap u bm" for u
  proof -
    from b have l: "length u = length bm" and s: "\<And>j. j < length bm \<Longrightarrow> u ! j \<Longrightarrow> bm ! j"
      by (simp_all add: sub_bitmap_nth)
    have n: "filterNot_apply f bs bm = Inr (map2 (\<lambda>a b. a \<and> \<not> b) bm u)"
      using a l by (simp add: filterNot_apply_def copyFrom_def andNot_def)
    have m: "map2 (\<lambda>a b. a \<and> \<not> b) bm (map2 (\<lambda>a b. a \<and> \<not> b) bm u) = u"
      using l s by (intro nth_equalityI) auto
    show ?thesis
      using a l by (simp add: filterNot_apply_def [of "filterNot_apply f"] copyFrom_def n andNot_def m)
  qed
  have c1: "\<exists>r. filterNot_apply f bs bm = Inr r \<and> length r = length bm
           \<and> setRows r = setRows bm - setRows t"
    if "f bs bm = Inr t \<and> length t = length bm"
    using that by (simp add: filterNot_apply_def copyFrom_def andNot_def setRows_map2_andNot)
  have c3: "filterNot_apply (filterNot_apply f) bs bm = f bs bm"
    if "acts_as_inter f bs (length bm) P"
  proof (rule nn)
    from that show "f bs bm = Inr (keepRows P bm)"
      by (simp add: acts_as_inter_def)
    show "sub_bitmap (keepRows P bm) bm"
      by (simp add: sub_bitmap_nth)
  qed
  from c1 nn [of t] c3 show ?thesis by blast
qed

theorem C7_filterNot_witness:
  "filterStringRange_apply example_formatters string_range_m_p fruit_block
      [True, True, True, True, True] = Inr [False, True, True, False, True]
   \<and> sub_bitmap [False, True, True, False, True] [True, True, True, True, True]
   \<and> filterNot_apply (filterStringRange_apply example_formatters string_range_m_p) fruit_block
       [True, True, True, True, True] = Inr [True, False, False, True, False]
   \<and> setRows [True, False, False, True, False]
       = setRows [True, True, True, True, True] - setRows [False, True, True, False, True]
   \<and> filterNot_apply (filterNot_apply (filterStringRange_apply example_formatters string_range_m_p))
        fruit_block [True, True, True, True, True] = Inr [False, True, True, False, True]
   \<and> acts_as_inter (filterStringRange_apply example_formatters string_range_m_p) fruit_block
        (length [True, True, True, True, True]) {1, 2, 4}"
proof -
  let ?f = "filterStringRange_apply example_formatters string_range_m_p"
  let ?bm = "[True, True, True, True, True]"
  let ?t = "[False, True, True, False, True]"
  have s: "sub_bitmap ?t ?bm"
    by (simp add: sub_bitmap_nth All_less_Suc)
  have l: "length ?bm = 5"
    by simp
  have a: "acts_as_inter ?f fruit_block (length ?bm) {1, 2, 4}"
    unfolding l by (rule string_range_m_p_acts)
  note inst = C7_filterNot [of ?f fruit_block ?bm ?t "{1, 2, 4}"]
  from inst run1 s have
    "\<exists>r. filterNot_apply ?f fruit_block ?bm = Inr r \<and> length r = length ?bm
         \<and> setRows r = setRows ?bm - setRows ?t"
    by (simp add: sub_bitmap_def)
  with run4 have d: "setRows [True, False, False, True, False] = setRows ?bm - setRows ?t"
    by simp
  from inst run1 s have "filterNot_apply (filterNot_apply ?f) fruit_block ?bm = ?f fruit_block ?bm"
    by blast
  with run1 have e: "filterNot_apply (filterNot_apply ?f) fruit_block ?bm = Inr ?t"
    by simp
  from run1 s run4 d e a show ?thesis by blast
qed

section \<open>Properties of fieldsSet\<close>

lemma star_alone_add: "star_alone fs \<Longrightarrow> star_alone (fieldsSet_add fs f)"
  by (auto simp: star_alone_def fieldsSet_add_def fieldsSet_contains_def fieldsSet_reset_def
      split: if_splits)

lemma star_alone_remove: "star_alone fs \<Longrightarrow> star_alone (fieldsSet_remove fs f)"
  by (auto simp: star_alone_def fieldsSet_remove_def fieldsSet_contains_def fieldsSet_reset_def
      split: if_splits)

lemma star_alone_addAll: "star_alone fs \<Longrightarrow> star_alone (fieldsSet_addAll fs names)"
  by (induction names arbitrary: fs) (simp_all add: star_alone_add)

lemma star_alone_removeAll: "star_alone fs \<Longrightarrow> star_alone (fieldsSet_removeAll fs names)"
  by (induction names arbitrary: fs) (simp_all add: star_alone_remove)

lemma star_alone_call: "star_alone fs \<Longrightarrow> star_alone (fieldsSet_run fs c)"
  by (cases c)
    (simp_all add: star_alone_add star_alone_remove star_alone_addAll star_alone_removeAll,
      simp add: star_alone_def fieldsSet_reset_def)

lemma star_alone_foldl: "star_alone fs \<Longrightarrow> star_alone (foldl fieldsSet_run fs calls)"
  by (induction calls arbitrary: fs) (simp_all add: star_alone_call)

lemma star_alone_built: "star_alone (fieldsSet_built calls)"
  unfolding fieldsSet_built_def
  by (rule star_alone_foldl) (simp add: star_alone_def newFieldsSet_def)

text \<open>
  Claim C10. For a fieldsSet \<open>fs\<close> that contains \<^verbatim>\<open>"*"\<close>: \<^verbatim>\<open>contains(f)\<close> is true for
  every \<open>f\<close>, \<^verbatim>\<open>add(f)\<close> leaves \<open>fs\<close> unchanged for every \<open>f\<close>, and \<^verbatim>\<open>remove(f)\<close>
  leaves it unchanged for every \<open>f\<close> other than \<^verbatim>\<open>"*"\<close>. \<^verbatim>\<open>remove("*")\<close> empties any
  fieldsSet. \<^verbatim>\<open>add("*")\<close> makes the set the singleton of \<^verbatim>\<open>"*"\<close> on every set that does
  not hold \<^verbatim>\<open>"*"\<close>, and on every fieldsSet there is: every set built from
  \<^verbatim>\<open>newFieldsSet()\<close> by the methods reset, add, remove, addAll and removeAll.
\<close>

theorem C10_fieldsSet_star:
  "(''*'' \<in> fs \<longrightarrow>
      fieldsSet_contains fs f
      \<and> fieldsSet_add fs f = fs
      \<and> (f \<noteq> ''*'' \<longrightarrow> fieldsSet_remove fs f = fs))
   \<and> fieldsSet_remove fs ''*'' = {}
   \<and> (''*'' \<notin> fs \<longrightarrow> fieldsSet_add fs ''*'' = {''*''})
   \<and> fieldsSet_add (fieldsSet_built calls) ''*'' = {''*''}"
proof -
  have a: "''*'' \<in> fs \<Longrightarrow> fieldsSet_contains fs f"
    by (simp add: fieldsSet_contains_def)
  have b: "''*'' \<in> fs \<Longrightarrow> fieldsSet_add fs f = fs"
    by (simp add: fieldsSet_add_def fieldsSet_contains_def)
  have c: "''*'' \<in> fs \<Longrightarrow> f \<noteq> ''*'' \<Longrightarrow> fieldsSet_remove fs f = fs"
    by (simp add: fieldsSet_remove_def fieldsSet_contains_def)
  have d: "fieldsSet_remove fs ''*'' = {}"
    by (simp add: fieldsSet_remove_def fieldsSet_reset_def)
  have e: "''*'' \<notin> fs \<Longrightarrow> fieldsSet_add fs ''*'' = {''*''}"
    by (simp add: fieldsSet_add_def fieldsSet_contains_def fieldsSet_reset_def)
  have g: "fieldsSet_add (fieldsSet_built calls) ''*'' = {''*''}"
    using star_alone_built [of calls]
    by (auto simp: star_alone_def fieldsSet_add_def fieldsSet_contains_def fieldsSet_reset_def
        split: if_splits)
  from a b c d e g show ?thesis by blast
qed

theorem C10_fieldsSet_star_witness:
  "''*'' \<in> {''*''}
   \<and> fieldsSet_contains {''*''} ''host''
   \<and> fieldsSet_add {''*''} ''host'' = {''*''}
   \<and> fieldsSet_remove {''*''} ''host'' = {''*''}
   \<and> fieldsSet_remove {''*''} ''*'' = {}
   \<and> ''*'' \<notin> {''a'', ''b''}
   \<and> fieldsSet_add {''a'', ''b''} ''*'' = {''*''}
   \<and> fieldsSet_add (fieldsSet_built [CallAdd ''a'', CallAddAll [''*'', ''b''], CallRemove ''b'']) ''*''
       = {''*''}"
  using C10_fieldsSet_star [of "{''*''}" "''host''" "[CallAdd ''a'', CallAddAll [''*'', ''b''], CallRemove ''b'']"]
    C10_fieldsSet_star [of "{''a'', ''b''}" "''host''" "[]"]
  by simp

end
